theory Spec2Isabelle
  imports Main
begin

section \<open>JavaScript values seen by the users component\<close>

text \<open>
  The handlers of \<^verbatim>\<open>users-controller.js\<close> read properties of \<^verbatim>\<open>request.body\<close> and
  \<^verbatim>\<open>request.params\<close>, compare them with \<^verbatim>\<open>!==\<close> and \<^verbatim>\<open>===\<close>, and test the values
  returned by the service for truthiness. A value is a primitive or a reference to an
  object or array (\<open>JRef\<close>, an address): strict equality compares primitives by content
  and objects by identity. Numbers are integers here, which leaves out NaN (never strictly
  equal to itself) and the negative zero; the schemas of the component admit strings only.
  Strings are lists of characters and \<open>length\<close> is the \<^verbatim>\<open>.length\<close> of the source.
\<close>

datatype jsval =
    JUndefined
  | JNull
  | JBool bool
  | JNum int
  | JStr string
  | JRef nat

text \<open>\<^verbatim>\<open>a !== b\<close> and \<^verbatim>\<open>a === b\<close>.\<close>

definition strict_neq :: "jsval \<Rightarrow> jsval \<Rightarrow> bool" where
  "strict_neq a b \<longleftrightarrow> a \<noteq> b"

definition strict_eq :: "jsval \<Rightarrow> jsval \<Rightarrow> bool" where
  "strict_eq a b \<longleftrightarrow> a = b"

text \<open>The conversion to boolean of \<^verbatim>\<open>if (v)\<close> and \<^verbatim>\<open>!v\<close>.\<close>

fun truthy :: "jsval \<Rightarrow> bool" where
  "truthy JUndefined = False"
| "truthy JNull = False"
| "truthy (JBool b) = b"
| "truthy (JNum n) = (n \<noteq> 0)"
| "truthy (JStr s) = (s \<noteq> [])"
| "truthy (JRef r) = True"

text \<open>
  An object is its list of own properties; reading a property that is not there gives
  \<^verbatim>\<open>undefined\<close>.
\<close>

type_synonym js_object = "(string \<times> jsval) list"

definition field :: "js_object \<Rightarrow> string \<Rightarrow> jsval" where
  "field obj k = (case map_of obj k of None \<Rightarrow> JUndefined | Some v \<Rightarrow> v)"

record request =
  params :: js_object
  body :: js_object

section \<open>Errors and responses\<close>

text \<open>
  Modelled from the spec: \<^verbatim>\<open>core/errors\<close> (\<^verbatim>\<open>errorTypes\<close>, \<^verbatim>\<open>errorResponder\<close>) is not
  among the sources. The spec gives the taxonomy of error kinds and the shape
  \<^verbatim>\<open>{kind, message}\<close> of an error.
\<close>

datatype error_type =
    VALIDATION_ERROR
  | INVALID_PASSWORD
  | EMAIL_ALREADY_TAKEN
  | UNPROCESSABLE_ENTITY
  | INVALID_CREDENTIALS

text \<open>
  What a handler hands to \<^verbatim>\<open>next\<close>: an error it built with \<^verbatim>\<open>errorResponder\<close>, or the
  value with which an awaited service promise was rejected, forwarded as it is.
\<close>

datatype js_error =
    ErrorResponse error_type string
  | Rejected jsval

definition errorResponder :: "error_type \<Rightarrow> string \<Rightarrow> js_error" where
  "errorResponder kind message = ErrorResponse kind message"

text \<open>
  The argument of \<^verbatim>\<open>response.status(200).json(...)\<close>: a value passed on as it is, or an
  object literal built by the handler.
\<close>

datatype payload =
    Json jsval
  | JsonObject js_object

text \<open>
  Every handler is one \<^verbatim>\<open>try\<close> block whose \<^verbatim>\<open>catch\<close> calls \<^verbatim>\<open>next(error)\<close>: it ends in a
  response with a status code, or in an error forwarded to the next middleware.
\<close>

datatype outcome =
    Responded nat payload
  | Forwarded js_error

section \<open>The users service\<close>

text \<open>
  \<^verbatim>\<open>users-service\<close> is an external collaborator. It is a parameter of every handler: a
  function from the call and the state of the world behind it (the store of users) to the
  settled promise (\<open>Inl\<close> a rejection, \<open>Inr\<close> the value) and the new state of the world.
  Nothing is assumed of it; any call may change the world.
\<close>

datatype call =
    GetUsers
  | GetUser jsval
  | CheckUserEmail jsval
  | CreateUser jsval jsval jsval
  | UpdateUser jsval jsval jsval
  | CheckLoginCredential jsval jsval
  | PatchUser jsval jsval jsval
  | DeleteUser jsval

type_synonym 'w users_service = "call \<Rightarrow> 'w \<Rightarrow> (jsval + jsval) \<times> 'w"

text \<open>The calls that create, change or remove a user.\<close>

fun mutating :: "call \<Rightarrow> bool" where
  "mutating (CreateUser n e p) = True"
| "mutating (UpdateUser i n e) = True"
| "mutating (PatchUser i p q) = True"
| "mutating (DeleteUser i) = True"
| "mutating c = False"

text \<open>The state a handler runs in: the world behind the service and the calls made so far.\<close>

record 'w state =
  world :: 'w
  calls :: "call list"

text \<open>
  \<^verbatim>\<open>await usersService.f(...)\<close>: the call is made and recorded; a rejected promise is thrown
  at the \<^verbatim>\<open>await\<close>.
\<close>

definition await :: "'w users_service \<Rightarrow> call \<Rightarrow> 'w state \<Rightarrow> (js_error + jsval) \<times> 'w state" where
  "await usersService c s =
     (case usersService c (world s) of
        (r, w') \<Rightarrow>
          ((case r of Inl e \<Rightarrow> Inl (Rejected e) | Inr v \<Rightarrow> Inr v),
           \<lparr>world = w', calls = calls s @ [c]\<rparr>))"

section \<open>The handlers of users-controller.js\<close>

definition getUsers :: "'w users_service \<Rightarrow> request \<Rightarrow> 'w state \<Rightarrow> outcome \<times> 'w state" where
  "getUsers usersService request s =
     (case await usersService GetUsers s of
        (Inl error, s1) \<Rightarrow> (Forwarded error, s1)
      | (Inr users, s1) \<Rightarrow> (Responded 200 (Json users), s1))"

definition getUser :: "'w users_service \<Rightarrow> request \<Rightarrow> 'w state \<Rightarrow> outcome \<times> 'w state" where
  "getUser usersService request s =
     (case await usersService (GetUser (field (params request) ''id'')) s of
        (Inl error, s1) \<Rightarrow> (Forwarded error, s1)
      | (Inr user, s1) \<Rightarrow>
          if \<not> truthy user
          then (Forwarded (errorResponder UNPROCESSABLE_ENTITY ''Unknown user''), s1)
          else (Responded 200 (Json user), s1))"

definition createUser :: "'w users_service \<Rightarrow> request \<Rightarrow> 'w state \<Rightarrow> outcome \<times> 'w state" where
  "createUser usersService request s =
     (let name = field (body request) ''name'';
          email = field (body request) ''email'';
          password = field (body request) ''password'';
          confirmpassword = field (body request) ''confirmpassword''
      in if strict_neq confirmpassword password
         then (Forwarded (errorResponder INVALID_PASSWORD ''Passwords did not match''), s)
         else
           (case await usersService (CheckUserEmail email) s of
              (Inl error, s1) \<Rightarrow> (Forwarded error, s1)
            | (Inr emailExists, s1) \<Rightarrow>
                if truthy emailExists
                then (Forwarded (errorResponder EMAIL_ALREADY_TAKEN ''Email already taken''), s1)
                else
                  (case await usersService (CreateUser name email password) s1 of
                     (Inl error, s2) \<Rightarrow> (Forwarded error, s2)
                   | (Inr success, s2) \<Rightarrow>
                       if \<not> truthy success
                       then (Forwarded (errorResponder UNPROCESSABLE_ENTITY ''Failed to create user''), s2)
                       else (Responded 200 (JsonObject [(''name'', name), (''email'', email)]), s2))))"

definition updateUser :: "'w users_service \<Rightarrow> request \<Rightarrow> 'w state \<Rightarrow> outcome \<times> 'w state" where
  "updateUser usersService request s =
     (let id = field (params request) ''id'';
          name = field (body request) ''name'';
          email = field (body request) ''email'';
          password = field (body request) ''password'';
          confirmpassword = field (body request) ''confirmpassword''
      in if strict_neq confirmpassword password
         then (Forwarded (errorResponder INVALID_PASSWORD ''Passwords did not match''), s)
         else
           (case await usersService (CheckUserEmail email) s of
              (Inl error, s1) \<Rightarrow> (Forwarded error, s1)
            | (Inr emailExists, s1) \<Rightarrow>
                if truthy emailExists
                then (Forwarded (errorResponder EMAIL_ALREADY_TAKEN ''Email already taken''), s1)
                else
                  (case await usersService (UpdateUser id name email) s1 of
                     (Inl error, s2) \<Rightarrow> (Forwarded error, s2)
                   | (Inr success, s2) \<Rightarrow>
                       if \<not> truthy success
                       then (Forwarded (errorResponder UNPROCESSABLE_ENTITY ''Failed to update user''), s2)
                       else (Responded 200 (JsonObject [(''id'', id)]), s2))))"

definition patchUser :: "'w users_service \<Rightarrow> request \<Rightarrow> 'w state \<Rightarrow> outcome \<times> 'w state" where
  "patchUser usersService request s =
     (let id = field (params request) ''id'';
          oldpassword = field (body request) ''oldpassword'';
          newpassword = field (body request) ''newpassword'';
          confirmnewpassword = field (body request) ''confirmnewpassword''
      in case await usersService (CheckLoginCredential id oldpassword) s of
           (Inl error, s1) \<Rightarrow> (Forwarded error, s1)
         | (Inr check, s1) \<Rightarrow>
             if truthy check
             then (Forwarded (errorResponder INVALID_PASSWORD ''Wrong password!''), s1)
             else if strict_neq newpassword confirmnewpassword
             then (Forwarded (errorResponder INVALID_PASSWORD
                     ''Your new password doesnt match the confirm new password!''), s1)
             else if strict_eq oldpassword newpassword
             then (Forwarded (errorResponder UNPROCESSABLE_ENTITY
                     ''Your new password cant be the same as the old one!''), s1)
             else
               (case await usersService (PatchUser id oldpassword confirmnewpassword) s1 of
                  (Inl error, s2) \<Rightarrow> (Forwarded error, s2)
                | (Inr checking, s2) \<Rightarrow>
                    if \<not> truthy checking
                    then (Forwarded (errorResponder INVALID_CREDENTIALS ''Fail to patch user''), s2)
                    else (Responded 200 (JsonObject [(''id'', id)]), s2)))"

definition deleteUser :: "'w users_service \<Rightarrow> request \<Rightarrow> 'w state \<Rightarrow> outcome \<times> 'w state" where
  "deleteUser usersService request s =
     (let id = field (params request) ''id''
      in case await usersService (DeleteUser id) s of
           (Inl error, s1) \<Rightarrow> (Forwarded error, s1)
         | (Inr success, s1) \<Rightarrow>
             if \<not> truthy success
             then (Forwarded (errorResponder UNPROCESSABLE_ENTITY ''Failed to delete user''), s1)
             else (Responded 200 (JsonObject [(''id'', id)]), s1))"

text \<open>
  The handler of the claim on the argument of the password change: patchUser as above,
  except that the service receives \<^verbatim>\<open>newpassword\<close> where the source passes
  \<^verbatim>\<open>confirmnewpassword\<close>.
\<close>

definition patchUser_passing_newpassword ::
    "'w users_service \<Rightarrow> request \<Rightarrow> 'w state \<Rightarrow> outcome \<times> 'w state" where
  "patchUser_passing_newpassword usersService request s =
     (let id = field (params request) ''id'';
          oldpassword = field (body request) ''oldpassword'';
          newpassword = field (body request) ''newpassword'';
          confirmnewpassword = field (body request) ''confirmnewpassword''
      in case await usersService (CheckLoginCredential id oldpassword) s of
           (Inl error, s1) \<Rightarrow> (Forwarded error, s1)
         | (Inr check, s1) \<Rightarrow>
             if truthy check
             then (Forwarded (errorResponder INVALID_PASSWORD ''Wrong password!''), s1)
             else if strict_neq newpassword confirmnewpassword
             then (Forwarded (errorResponder INVALID_PASSWORD
                     ''Your new password doesnt match the confirm new password!''), s1)
             else if strict_eq oldpassword newpassword
             then (Forwarded (errorResponder UNPROCESSABLE_ENTITY
                     ''Your new password cant be the same as the old one!''), s1)
             else
               (case await usersService (PatchUser id oldpassword newpassword) s1 of
                  (Inl error, s2) \<Rightarrow> (Forwarded error, s2)
                | (Inr checking, s2) \<Rightarrow>
                    if \<not> truthy checking
                    then (Forwarded (errorResponder INVALID_CREDENTIALS ''Fail to patch user''), s2)
                    else (Responded 200 (JsonObject [(''id'', id)]), s2)))"

text \<open>The handlers the module exports, by name.\<close>

datatype handler_name =
    Name_getUsers
  | Name_getUser
  | Name_createUser
  | Name_updateUser
  | Name_deleteUser
  | Name_patchUser

fun exports :: "handler_name \<Rightarrow> 'w users_service \<Rightarrow> request \<Rightarrow> 'w state \<Rightarrow> outcome \<times> 'w state" where
  "exports Name_getUsers = getUsers"
| "exports Name_getUser = getUser"
| "exports Name_createUser = createUser"
| "exports Name_updateUser = updateUser"
| "exports Name_deleteUser = deleteUser"
| "exports Name_patchUser = patchUser"

text \<open>The calls a run of a handler has added to the ones recorded before it.\<close>

definition made :: "'w state \<Rightarrow> outcome \<times> 'w state \<Rightarrow> call list" where
  "made s r = drop (length (calls s)) (calls (snd r))"

section \<open>The schemas of users-validator.js\<close>

text \<open>
  A schema built by \<^verbatim>\<open>joi.string()\<close> and the rules chained on it. joi is a library
  outside the repository; the rules are the ones it documents: a string schema admits
  strings only and no empty string, \<^verbatim>\<open>min\<close> and \<^verbatim>\<open>max\<close> bound the \<^verbatim>\<open>.length\<close>,
  \<^verbatim>\<open>required\<close> refuses \<^verbatim>\<open>undefined\<close>, and \<^verbatim>\<open>label\<close> names the field in messages. What
  \<^verbatim>\<open>email\<close> accepts is decided inside the library and is a parameter \<open>is_email\<close> of the
  validation.
\<close>

record string_schema =
  min_length :: "nat option"
  max_length :: "nat option"
  email_rule :: bool
  presence_required :: bool
  label_of :: string

definition joi_string :: string_schema where
  "joi_string =
     \<lparr>min_length = None, max_length = None, email_rule = False,
      presence_required = False, label_of = []\<rparr>"

definition joi_min :: "nat \<Rightarrow> string_schema \<Rightarrow> string_schema" where
  "joi_min n sc = sc\<lparr>min_length := Some n\<rparr>"

definition joi_max :: "nat \<Rightarrow> string_schema \<Rightarrow> string_schema" where
  "joi_max n sc = sc\<lparr>max_length := Some n\<rparr>"

definition joi_email :: "string_schema \<Rightarrow> string_schema" where
  "joi_email sc = sc\<lparr>email_rule := True\<rparr>"

definition joi_required :: "string_schema \<Rightarrow> string_schema" where
  "joi_required sc = sc\<lparr>presence_required := True\<rparr>"

definition joi_label :: "string \<Rightarrow> string_schema \<Rightarrow> string_schema" where
  "joi_label l sc = sc\<lparr>label_of := l\<rparr>"

text \<open>\<^verbatim>\<open>x.f().g()\<close>: the methods applied from left to right.\<close>

definition chain :: "'a \<Rightarrow> ('a \<Rightarrow> 'a) list \<Rightarrow> 'a" where
  "chain x fs = foldl (\<lambda>y f. f y) x fs"

datatype violation =
    Is_required
  | Not_a_string
  | Is_empty
  | Too_short
  | Too_long
  | Not_an_email
  | Not_allowed

fun validate_value :: "(string \<Rightarrow> bool) \<Rightarrow> string_schema \<Rightarrow> jsval \<Rightarrow> violation list" where
  "validate_value is_email sc JUndefined = (if presence_required sc then [Is_required] else [])"
| "validate_value is_email sc (JStr v) =
     (if v = [] then [Is_empty]
      else (case min_length sc of None \<Rightarrow> [] | Some n \<Rightarrow> if length v < n then [Too_short] else [])
         @ (case max_length sc of None \<Rightarrow> [] | Some n \<Rightarrow> if n < length v then [Too_long] else [])
         @ (if email_rule sc \<and> \<not> is_email v then [Not_an_email] else []))"
| "validate_value is_email sc v = [Not_a_string]"

text \<open>The \<^verbatim>\<open>body\<close> of each exported schema: the keys it declares, in the order of the source.\<close>

type_synonym object_schema = "(string \<times> string_schema) list"

definition validator_createUser :: object_schema where
  "validator_createUser =
     [(''name'', chain joi_string [joi_min 1, joi_max 100, joi_required, joi_label ''Name'']),
      (''email'', chain joi_string [joi_email, joi_required, joi_label ''Email'']),
      (''password'', chain joi_string [joi_min 6, joi_max 32, joi_required, joi_label ''Password'']),
      (''confirmpassword'',
         chain joi_string [joi_min 6, joi_max 32, joi_required, joi_label ''Confirm Password''])]"

definition validator_updateUser :: object_schema where
  "validator_updateUser =
     [(''name'', chain joi_string [joi_min 1, joi_max 100, joi_required, joi_label ''Name'']),
      (''email'', chain joi_string [joi_email, joi_required, joi_label ''Email''])]"

definition validator_patchUser :: object_schema where
  "validator_patchUser =
     [(''oldpassword'',
         chain joi_string [joi_min 6, joi_max 32, joi_required, joi_label ''Old Password'']),
      (''newpassword'',
         chain joi_string [joi_min 6, joi_max 32, joi_required, joi_label ''New Password'']),
      (''confirmnewpassword'',
         chain joi_string [joi_min 6, joi_max 32, joi_required, joi_label ''Confirm New Password''])]"

text \<open>
  Modelled from the spec: the middleware that applies a schema to a request body (the
  validation gate) is not among the sources. Every declared key is validated against the
  value the body has for it, and the violations are listed by label. Whether a key the
  schema does not declare is refused is an option of the gate, \<open>allow_unknown\<close>; joi
  refuses it unless told otherwise.
\<close>

definition validate_body ::
    "(string \<Rightarrow> bool) \<Rightarrow> bool \<Rightarrow> object_schema \<Rightarrow> js_object \<Rightarrow> (string \<times> violation) list" where
  "validate_body is_email allow_unknown schema obj =
     concat (map (\<lambda>(k, sc). map (Pair (label_of sc)) (validate_value is_email sc (field obj k))) schema)
     @ (if allow_unknown then []
        else map (\<lambda>k. (k, Not_allowed)) (filter (\<lambda>k. k \<notin> set (map fst schema)) (map fst obj)))"

definition accepts :: "(string \<Rightarrow> bool) \<Rightarrow> bool \<Rightarrow> object_schema \<Rightarrow> js_object \<Rightarrow> bool" where
  "accepts is_email allow_unknown schema obj \<longleftrightarrow> validate_body is_email allow_unknown schema obj = []"

text \<open>The keys a schema declares, and the ones it requires.\<close>

definition declared_keys :: "object_schema \<Rightarrow> string list" where
  "declared_keys schema = map fst schema"

definition required_keys :: "object_schema \<Rightarrow> string list" where
  "required_keys schema = map fst (filter (\<lambda>(k, sc). presence_required sc) schema)"

text \<open>
  The rules of the spec's table of fields, to compare the schemas with: a name is a
  string of length 1 to 100, an email a string in email format, a password a string of
  length 6 to 32; a field that is required is not \<^verbatim>\<open>undefined\<close>.
\<close>

definition spec_name :: "jsval \<Rightarrow> bool" where
  "spec_name v = (case v of JStr x \<Rightarrow> 1 \<le> length x \<and> length x \<le> 100 | _ \<Rightarrow> False)"

definition spec_email :: "(string \<Rightarrow> bool) \<Rightarrow> jsval \<Rightarrow> bool" where
  "spec_email is_email v = (case v of JStr x \<Rightarrow> x \<noteq> [] \<and> is_email x | _ \<Rightarrow> False)"

definition spec_password :: "jsval \<Rightarrow> bool" where
  "spec_password v = (case v of JStr x \<Rightarrow> 6 \<le> length x \<and> length x \<le> 32 | _ \<Rightarrow> False)"

section \<open>A store of users to run the handlers on\<close>

text \<open>
  A small service used to evaluate the handlers on concrete requests: the world is the
  list of registered emails. The lookup of an email answers whether it is registered, a
  user is found under the id \<^verbatim>\<open>u1\<close> only, the credential check answers \<open>check\<close>, and
  every mutation answers \<open>ok\<close>; a successful creation registers the email.
\<close>

fun demo_service :: "bool \<Rightarrow> bool \<Rightarrow> jsval list users_service" where
  "demo_service check ok GetUsers w = (Inr (JRef 0), w)"
| "demo_service check ok (GetUser i) w = (Inr (if i = JStr ''u1'' then JRef 1 else JNull), w)"
| "demo_service check ok (CheckUserEmail e) w = (Inr (JBool (e \<in> set w)), w)"
| "demo_service check ok (CreateUser n e p) w = (Inr (JBool ok), if ok then e # w else w)"
| "demo_service check ok (UpdateUser i n e) w = (Inr (JBool ok), w)"
| "demo_service check ok (CheckLoginCredential i p) w = (Inr (JBool check), w)"
| "demo_service check ok (PatchUser i p q) w = (Inr (JBool ok), w)"
| "demo_service check ok (DeleteUser i) w = (Inr (JBool ok), w)"

definition start :: "'w \<Rightarrow> 'w state" where
  "start w = \<lparr>world = w, calls = []\<rparr>"

text \<open>An email format used to evaluate the schemas: some text, an at sign, some text.\<close>

definition demo_is_email :: "string \<Rightarrow> bool" where
  "demo_is_email v \<longleftrightarrow>
     CHR ''@'' \<in> set v \<and> takeWhile (\<lambda>c. c \<noteq> CHR ''@'') v \<noteq> []
     \<and> tl (dropWhile (\<lambda>c. c \<noteq> CHR ''@'') v) \<noteq> []"

text \<open>Requests to evaluate the handlers on.\<close>

definition abcdef_request :: request where
  "abcdef_request =
     \<lparr>params = [(''id'', JStr ''u1'')],
      body = [(''oldpassword'', JStr ''abcdef''), (''newpassword'', JStr ''abcdef''),
              (''confirmnewpassword'', JStr ''abcdef'')]\<rparr>"

definition alice_request :: request where
  "alice_request =
     \<lparr>params = [(''id'', JStr ''u1'')],
      body = [(''name'', JStr ''Alice''), (''email'', JStr ''a@x.com''),
              (''password'', JStr ''secret1''), (''confirmpassword'', JStr ''secret1'')]\<rparr>"

definition change_request :: request where
  "change_request =
     \<lparr>params = [(''id'', JStr ''u1'')],
      body = [(''oldpassword'', JStr ''abcdef''), (''newpassword'', JStr ''ghijkl''),
              (''confirmnewpassword'', JStr ''ghijkl'')]\<rparr>"

definition alice_new_password_request :: request where
  "alice_new_password_request =
     \<lparr>params = [],
      body = [(''name'', JStr ''Alice''), (''email'', JStr ''a@x.com''),
              (''password'', JStr ''another9''), (''confirmpassword'', JStr ''another9'')]\<rparr>"

text \<open>The names of the properties of what a handler sends back, when it is an object literal.\<close>

fun property_names :: "outcome \<Rightarrow> string list" where
  "property_names (Responded status (JsonObject obj)) = map fst obj"
| "property_names out = []"

definition plain_update_request :: request where
  "plain_update_request =
     \<lparr>params = [(''id'', JStr ''u1'')],
      body = [(''name'', JStr ''Alice''), (''email'', JStr ''a@x.com'')]\<rparr>"

definition half_update_request :: request where
  "half_update_request =
     \<lparr>params = [(''id'', JStr ''u1'')],
      body = [(''name'', JStr ''Alice''), (''email'', JStr ''a@x.com''),
              (''password'', JStr ''secret1'')]\<rparr>"

definition no_at_body :: js_object where
  "no_at_body =
     [(''name'', JStr ''Alice''), (''email'', JStr ''ax.com''),
      (''password'', JStr ''secret1''), (''confirmpassword'', JStr ''secret1'')]"

definition short_password_body :: js_object where
  "short_password_body =
     [(''oldpassword'', JStr ''abcdef''), (''newpassword'', JStr ''abc''),
      (''confirmnewpassword'', JStr ''abc'')]"

section \<open>The paths of the handlers\<close>

text \<open>
  One lemma for each path through a handler: what the service answered on the way, and
  the outcome, the world and the calls made at the end.
\<close>

lemma await_value:
  "usersService c (world s) = (Inr v, w') \<Longrightarrow>
   await usersService c s = (Inr v, \<lparr>world = w', calls = calls s @ [c]\<rparr>)"
  by (simp add: await_def)

lemma await_rejection:
  "usersService c (world s) = (Inl e, w') \<Longrightarrow>
   await usersService c s = (Inl (Rejected e), \<lparr>world = w', calls = calls s @ [c]\<rparr>)"
  by (simp add: await_def)

lemma await_cases:
  obtains (returned) v w' where "usersService c (world s) = (Inr v, w')"
            "await usersService c s = (Inr v, \<lparr>world = w', calls = calls s @ [c]\<rparr>)"
        | (rejected) e w' where "usersService c (world s) = (Inl e, w')"
            "await usersService c s = (Inl (Rejected e), \<lparr>world = w', calls = calls s @ [c]\<rparr>)"
  by (cases "usersService c (world s)"; cases "fst (usersService c (world s))")
     (auto simp: await_def)

subsection \<open>createUser, path by path\<close>

lemma createUser_mismatch:
  "strict_neq (field (body request) ''confirmpassword'') (field (body request) ''password'') \<Longrightarrow>
   createUser usersService request s =
     (Forwarded (ErrorResponse INVALID_PASSWORD ''Passwords did not match''), s)"
  by (simp add: createUser_def Let_def errorResponder_def)

lemma createUser_lookup_rejected:
  "\<not> strict_neq (field (body request) ''confirmpassword'') (field (body request) ''password'') \<Longrightarrow>
   usersService (CheckUserEmail (field (body request) ''email'')) (world s) = (Inl e, w1) \<Longrightarrow>
   createUser usersService request s =
     (Forwarded (Rejected e),
      \<lparr>world = w1, calls = calls s @ [CheckUserEmail (field (body request) ''email'')]\<rparr>)"
  by (simp add: createUser_def Let_def await_rejection)

lemma createUser_taken:
  "\<not> strict_neq (field (body request) ''confirmpassword'') (field (body request) ''password'') \<Longrightarrow>
   usersService (CheckUserEmail (field (body request) ''email'')) (world s) = (Inr v, w1) \<Longrightarrow>
   truthy v \<Longrightarrow>
   createUser usersService request s =
     (Forwarded (ErrorResponse EMAIL_ALREADY_TAKEN ''Email already taken''),
      \<lparr>world = w1, calls = calls s @ [CheckUserEmail (field (body request) ''email'')]\<rparr>)"
  by (simp add: createUser_def Let_def await_value errorResponder_def)

lemma createUser_create_rejected:
  "\<not> strict_neq (field (body request) ''confirmpassword'') (field (body request) ''password'') \<Longrightarrow>
   usersService (CheckUserEmail (field (body request) ''email'')) (world s) = (Inr v, w1) \<Longrightarrow>
   \<not> truthy v \<Longrightarrow>
   usersService (CreateUser (field (body request) ''name'') (field (body request) ''email'')
                            (field (body request) ''password'')) w1 = (Inl e, w2) \<Longrightarrow>
   createUser usersService request s =
     (Forwarded (Rejected e),
      \<lparr>world = w2,
       calls = calls s @ [CheckUserEmail (field (body request) ''email''),
                          CreateUser (field (body request) ''name'') (field (body request) ''email'')
                                     (field (body request) ''password'')]\<rparr>)"
  by (simp add: createUser_def Let_def await_value await_rejection)

lemma createUser_failed:
  "\<not> strict_neq (field (body request) ''confirmpassword'') (field (body request) ''password'') \<Longrightarrow>
   usersService (CheckUserEmail (field (body request) ''email'')) (world s) = (Inr v, w1) \<Longrightarrow>
   \<not> truthy v \<Longrightarrow>
   usersService (CreateUser (field (body request) ''name'') (field (body request) ''email'')
                            (field (body request) ''password'')) w1 = (Inr r, w2) \<Longrightarrow>
   \<not> truthy r \<Longrightarrow>
   createUser usersService request s =
     (Forwarded (ErrorResponse UNPROCESSABLE_ENTITY ''Failed to create user''),
      \<lparr>world = w2,
       calls = calls s @ [CheckUserEmail (field (body request) ''email''),
                          CreateUser (field (body request) ''name'') (field (body request) ''email'')
                                     (field (body request) ''password'')]\<rparr>)"
  by (simp add: createUser_def Let_def await_value errorResponder_def)

lemma createUser_success:
  "\<not> strict_neq (field (body request) ''confirmpassword'') (field (body request) ''password'') \<Longrightarrow>
   usersService (CheckUserEmail (field (body request) ''email'')) (world s) = (Inr v, w1) \<Longrightarrow>
   \<not> truthy v \<Longrightarrow>
   usersService (CreateUser (field (body request) ''name'') (field (body request) ''email'')
                            (field (body request) ''password'')) w1 = (Inr r, w2) \<Longrightarrow>
   truthy r \<Longrightarrow>
   createUser usersService request s =
     (Responded 200 (JsonObject [(''name'', field (body request) ''name''),
                                 (''email'', field (body request) ''email'')]),
      \<lparr>world = w2,
       calls = calls s @ [CheckUserEmail (field (body request) ''email''),
                          CreateUser (field (body request) ''name'') (field (body request) ''email'')
                                     (field (body request) ''password'')]\<rparr>)"
  by (simp add: createUser_def Let_def await_value)

subsection \<open>updateUser, path by path\<close>

lemma updateUser_mismatch:
  "strict_neq (field (body request) ''confirmpassword'') (field (body request) ''password'') \<Longrightarrow>
   updateUser usersService request s =
     (Forwarded (ErrorResponse INVALID_PASSWORD ''Passwords did not match''), s)"
  by (simp add: updateUser_def Let_def errorResponder_def)

lemma updateUser_lookup_rejected:
  "\<not> strict_neq (field (body request) ''confirmpassword'') (field (body request) ''password'') \<Longrightarrow>
   usersService (CheckUserEmail (field (body request) ''email'')) (world s) = (Inl e, w1) \<Longrightarrow>
   updateUser usersService request s =
     (Forwarded (Rejected e),
      \<lparr>world = w1, calls = calls s @ [CheckUserEmail (field (body request) ''email'')]\<rparr>)"
  by (simp add: updateUser_def Let_def await_rejection)

lemma updateUser_taken:
  "\<not> strict_neq (field (body request) ''confirmpassword'') (field (body request) ''password'') \<Longrightarrow>
   usersService (CheckUserEmail (field (body request) ''email'')) (world s) = (Inr v, w1) \<Longrightarrow>
   truthy v \<Longrightarrow>
   updateUser usersService request s =
     (Forwarded (ErrorResponse EMAIL_ALREADY_TAKEN ''Email already taken''),
      \<lparr>world = w1, calls = calls s @ [CheckUserEmail (field (body request) ''email'')]\<rparr>)"
  by (simp add: updateUser_def Let_def await_value errorResponder_def)

lemma updateUser_update_rejected:
  "\<not> strict_neq (field (body request) ''confirmpassword'') (field (body request) ''password'') \<Longrightarrow>
   usersService (CheckUserEmail (field (body request) ''email'')) (world s) = (Inr v, w1) \<Longrightarrow>
   \<not> truthy v \<Longrightarrow>
   usersService (UpdateUser (field (params request) ''id'') (field (body request) ''name'')
                            (field (body request) ''email'')) w1 = (Inl e, w2) \<Longrightarrow>
   updateUser usersService request s =
     (Forwarded (Rejected e),
      \<lparr>world = w2,
       calls = calls s @ [CheckUserEmail (field (body request) ''email''),
                          UpdateUser (field (params request) ''id'') (field (body request) ''name'')
                                     (field (body request) ''email'')]\<rparr>)"
  by (simp add: updateUser_def Let_def await_value await_rejection)

lemma updateUser_failed:
  "\<not> strict_neq (field (body request) ''confirmpassword'') (field (body request) ''password'') \<Longrightarrow>
   usersService (CheckUserEmail (field (body request) ''email'')) (world s) = (Inr v, w1) \<Longrightarrow>
   \<not> truthy v \<Longrightarrow>
   usersService (UpdateUser (field (params request) ''id'') (field (body request) ''name'')
                            (field (body request) ''email'')) w1 = (Inr r, w2) \<Longrightarrow>
   \<not> truthy r \<Longrightarrow>
   updateUser usersService request s =
     (Forwarded (ErrorResponse UNPROCESSABLE_ENTITY ''Failed to update user''),
      \<lparr>world = w2,
       calls = calls s @ [CheckUserEmail (field (body request) ''email''),
                          UpdateUser (field (params request) ''id'') (field (body request) ''name'')
                                     (field (body request) ''email'')]\<rparr>)"
  by (simp add: updateUser_def Let_def await_value errorResponder_def)

lemma updateUser_success:
  "\<not> strict_neq (field (body request) ''confirmpassword'') (field (body request) ''password'') \<Longrightarrow>
   usersService (CheckUserEmail (field (body request) ''email'')) (world s) = (Inr v, w1) \<Longrightarrow>
   \<not> truthy v \<Longrightarrow>
   usersService (UpdateUser (field (params request) ''id'') (field (body request) ''name'')
                            (field (body request) ''email'')) w1 = (Inr r, w2) \<Longrightarrow>
   truthy r \<Longrightarrow>
   updateUser usersService request s =
     (Responded 200 (JsonObject [(''id'', field (params request) ''id'')]),
      \<lparr>world = w2,
       calls = calls s @ [CheckUserEmail (field (body request) ''email''),
                          UpdateUser (field (params request) ''id'') (field (body request) ''name'')
                                     (field (body request) ''email'')]\<rparr>)"
  by (simp add: updateUser_def Let_def await_value)

subsection \<open>patchUser, path by path\<close>

lemma patchUser_check_rejected:
  "usersService (CheckLoginCredential (field (params request) ''id'')
                                      (field (body request) ''oldpassword'')) (world s) = (Inl e, w1) \<Longrightarrow>
   patchUser usersService request s =
     (Forwarded (Rejected e),
      \<lparr>world = w1,
       calls = calls s @ [CheckLoginCredential (field (params request) ''id'')
                                               (field (body request) ''oldpassword'')]\<rparr>)"
  by (simp add: patchUser_def Let_def await_rejection)

lemma patchUser_wrong_password:
  "usersService (CheckLoginCredential (field (params request) ''id'')
                                      (field (body request) ''oldpassword'')) (world s) = (Inr v, w1) \<Longrightarrow>
   truthy v \<Longrightarrow>
   patchUser usersService request s =
     (Forwarded (ErrorResponse INVALID_PASSWORD ''Wrong password!''),
      \<lparr>world = w1,
       calls = calls s @ [CheckLoginCredential (field (params request) ''id'')
                                               (field (body request) ''oldpassword'')]\<rparr>)"
  by (simp add: patchUser_def Let_def await_value errorResponder_def)

lemma patchUser_confirm_mismatch:
  "usersService (CheckLoginCredential (field (params request) ''id'')
                                      (field (body request) ''oldpassword'')) (world s) = (Inr v, w1) \<Longrightarrow>
   \<not> truthy v \<Longrightarrow>
   strict_neq (field (body request) ''newpassword'') (field (body request) ''confirmnewpassword'') \<Longrightarrow>
   patchUser usersService request s =
     (Forwarded (ErrorResponse INVALID_PASSWORD
        ''Your new password doesnt match the confirm new password!''),
      \<lparr>world = w1,
       calls = calls s @ [CheckLoginCredential (field (params request) ''id'')
                                               (field (body request) ''oldpassword'')]\<rparr>)"
  by (simp add: patchUser_def Let_def await_value errorResponder_def)

lemma patchUser_same_as_old:
  "usersService (CheckLoginCredential (field (params request) ''id'')
                                      (field (body request) ''oldpassword'')) (world s) = (Inr v, w1) \<Longrightarrow>
   \<not> truthy v \<Longrightarrow>
   \<not> strict_neq (field (body request) ''newpassword'') (field (body request) ''confirmnewpassword'') \<Longrightarrow>
   strict_eq (field (body request) ''oldpassword'') (field (body request) ''newpassword'') \<Longrightarrow>
   patchUser usersService request s =
     (Forwarded (ErrorResponse UNPROCESSABLE_ENTITY
        ''Your new password cant be the same as the old one!''),
      \<lparr>world = w1,
       calls = calls s @ [CheckLoginCredential (field (params request) ''id'')
                                               (field (body request) ''oldpassword'')]\<rparr>)"
  by (simp add: patchUser_def Let_def await_value errorResponder_def)

lemma patchUser_patch_rejected:
  "usersService (CheckLoginCredential (field (params request) ''id'')
                                      (field (body request) ''oldpassword'')) (world s) = (Inr v, w1) \<Longrightarrow>
   \<not> truthy v \<Longrightarrow>
   \<not> strict_neq (field (body request) ''newpassword'') (field (body request) ''confirmnewpassword'') \<Longrightarrow>
   \<not> strict_eq (field (body request) ''oldpassword'') (field (body request) ''newpassword'') \<Longrightarrow>
   usersService (PatchUser (field (params request) ''id'') (field (body request) ''oldpassword'')
                           (field (body request) ''confirmnewpassword'')) w1 = (Inl e, w2) \<Longrightarrow>
   patchUser usersService request s =
     (Forwarded (Rejected e),
      \<lparr>world = w2,
       calls = calls s @ [CheckLoginCredential (field (params request) ''id'')
                                               (field (body request) ''oldpassword''),
                          PatchUser (field (params request) ''id'') (field (body request) ''oldpassword'')
                                    (field (body request) ''confirmnewpassword'')]\<rparr>)"
  by (simp add: patchUser_def Let_def await_value await_rejection)

lemma patchUser_failed:
  "usersService (CheckLoginCredential (field (params request) ''id'')
                                      (field (body request) ''oldpassword'')) (world s) = (Inr v, w1) \<Longrightarrow>
   \<not> truthy v \<Longrightarrow>
   \<not> strict_neq (field (body request) ''newpassword'') (field (body request) ''confirmnewpassword'') \<Longrightarrow>
   \<not> strict_eq (field (body request) ''oldpassword'') (field (body request) ''newpassword'') \<Longrightarrow>
   usersService (PatchUser (field (params request) ''id'') (field (body request) ''oldpassword'')
                           (field (body request) ''confirmnewpassword'')) w1 = (Inr r, w2) \<Longrightarrow>
   \<not> truthy r \<Longrightarrow>
   patchUser usersService request s =
     (Forwarded (ErrorResponse INVALID_CREDENTIALS ''Fail to patch user''),
      \<lparr>world = w2,
       calls = calls s @ [CheckLoginCredential (field (params request) ''id'')
                                               (field (body request) ''oldpassword''),
                          PatchUser (field (params request) ''id'') (field (body request) ''oldpassword'')
                                    (field (body request) ''confirmnewpassword'')]\<rparr>)"
  by (simp add: patchUser_def Let_def await_value errorResponder_def)

lemma patchUser_success:
  "usersService (CheckLoginCredential (field (params request) ''id'')
                                      (field (body request) ''oldpassword'')) (world s) = (Inr v, w1) \<Longrightarrow>
   \<not> truthy v \<Longrightarrow>
   \<not> strict_neq (field (body request) ''newpassword'') (field (body request) ''confirmnewpassword'') \<Longrightarrow>
   \<not> strict_eq (field (body request) ''oldpassword'') (field (body request) ''newpassword'') \<Longrightarrow>
   usersService (PatchUser (field (params request) ''id'') (field (body request) ''oldpassword'')
                           (field (body request) ''confirmnewpassword'')) w1 = (Inr r, w2) \<Longrightarrow>
   truthy r \<Longrightarrow>
   patchUser usersService request s =
     (Responded 200 (JsonObject [(''id'', field (params request) ''id'')]),
      \<lparr>world = w2,
       calls = calls s @ [CheckLoginCredential (field (params request) ''id'')
                                               (field (body request) ''oldpassword''),
                          PatchUser (field (params request) ''id'') (field (body request) ''oldpassword'')
                                    (field (body request) ''confirmnewpassword'')]\<rparr>)"
  by (simp add: patchUser_def Let_def await_value)

subsection \<open>getUser and deleteUser, path by path\<close>

lemma getUser_rejected:
  "usersService (GetUser (field (params request) ''id'')) (world s) = (Inl e, w1) \<Longrightarrow>
   getUser usersService request s =
     (Forwarded (Rejected e),
      \<lparr>world = w1, calls = calls s @ [GetUser (field (params request) ''id'')]\<rparr>)"
  by (simp add: getUser_def await_rejection)

lemma getUser_unknown:
  "usersService (GetUser (field (params request) ''id'')) (world s) = (Inr v, w1) \<Longrightarrow>
   \<not> truthy v \<Longrightarrow>
   getUser usersService request s =
     (Forwarded (ErrorResponse UNPROCESSABLE_ENTITY ''Unknown user''),
      \<lparr>world = w1, calls = calls s @ [GetUser (field (params request) ''id'')]\<rparr>)"
  by (simp add: getUser_def await_value errorResponder_def)

lemma getUser_found:
  "usersService (GetUser (field (params request) ''id'')) (world s) = (Inr v, w1) \<Longrightarrow>
   truthy v \<Longrightarrow>
   getUser usersService request s =
     (Responded 200 (Json v),
      \<lparr>world = w1, calls = calls s @ [GetUser (field (params request) ''id'')]\<rparr>)"
  by (simp add: getUser_def await_value)

lemma deleteUser_rejected:
  "usersService (DeleteUser (field (params request) ''id'')) (world s) = (Inl e, w1) \<Longrightarrow>
   deleteUser usersService request s =
     (Forwarded (Rejected e),
      \<lparr>world = w1, calls = calls s @ [DeleteUser (field (params request) ''id'')]\<rparr>)"
  by (simp add: deleteUser_def Let_def await_rejection)

lemma deleteUser_failed:
  "usersService (DeleteUser (field (params request) ''id'')) (world s) = (Inr v, w1) \<Longrightarrow>
   \<not> truthy v \<Longrightarrow>
   deleteUser usersService request s =
     (Forwarded (ErrorResponse UNPROCESSABLE_ENTITY ''Failed to delete user''),
      \<lparr>world = w1, calls = calls s @ [DeleteUser (field (params request) ''id'')]\<rparr>)"
  by (simp add: deleteUser_def Let_def await_value errorResponder_def)

lemma deleteUser_success:
  "usersService (DeleteUser (field (params request) ''id'')) (world s) = (Inr v, w1) \<Longrightarrow>
   truthy v \<Longrightarrow>
   deleteUser usersService request s =
     (Responded 200 (JsonObject [(''id'', field (params request) ''id'')]),
      \<lparr>world = w1, calls = calls s @ [DeleteUser (field (params request) ''id'')]\<rparr>)"
  by (simp add: deleteUser_def Let_def await_value)

lemma getUsers_calls:
  "calls (snd (getUsers usersService request s)) = calls s @ [GetUsers]"
  by (cases rule: await_cases [of usersService GetUsers s]) (simp_all add: getUsers_def)

section \<open>Password confirmation in createUser and updateUser\<close>

text \<open>
  C1. In createUser and in updateUser, a request whose \<^verbatim>\<open>confirmpassword\<close> is not strictly
  equal to its \<^verbatim>\<open>password\<close> ends in the error INVALID_PASSWORD with the message
  "Passwords did not match", and the state is the one the handler started in: the world
  is untouched and no call of the service (neither the lookup of the email nor a
  mutation) has been recorded.
\<close>

theorem password_mismatch_rejected:
  assumes "strict_neq (field (body request) ''confirmpassword'') (field (body request) ''password'')"
  shows "createUser usersService request s =
           (Forwarded (ErrorResponse INVALID_PASSWORD ''Passwords did not match''), s)
       \<and> updateUser usersService request s =
           (Forwarded (ErrorResponse INVALID_PASSWORD ''Passwords did not match''), s)
       \<and> calls (snd (createUser usersService request s)) = calls s
       \<and> calls (snd (updateUser usersService request s)) = calls s"
  using assms by (simp add: createUser_def updateUser_def errorResponder_def)

theorem password_mismatch_rejected_witness:
  "strict_neq (field [(''name'', JStr ''Alice''), (''email'', JStr ''a@x.com''),
                     (''password'', JStr ''secret1''), (''confirmpassword'', JStr ''secret2'')]
                    ''confirmpassword'')
              (field [(''name'', JStr ''Alice''), (''email'', JStr ''a@x.com''),
                     (''password'', JStr ''secret1''), (''confirmpassword'', JStr ''secret2'')]
                    ''password'')
   \<and> createUser (demo_service False True)
        \<lparr>params = [], body = [(''name'', JStr ''Alice''), (''email'', JStr ''a@x.com''),
                     (''password'', JStr ''secret1''), (''confirmpassword'', JStr ''secret2'')]\<rparr>
        (start []) =
      (Forwarded (ErrorResponse INVALID_PASSWORD ''Passwords did not match''), start [])"
proof -
  let ?b = "[(''name'', JStr ''Alice''), (''email'', JStr ''a@x.com''),
             (''password'', JStr ''secret1''), (''confirmpassword'', JStr ''secret2'')]"
  have h: "strict_neq (field ?b ''confirmpassword'') (field ?b ''password'')"
    by (simp add: strict_neq_def field_def)
  have "strict_neq (field (body \<lparr>params = [], body = ?b\<rparr>) ''confirmpassword'')
                   (field (body \<lparr>params = [], body = ?b\<rparr>) ''password'')"
    using h by simp
  from password_mismatch_rejected [OF this, of "demo_service False True" "start []"] h
  show ?thesis by simp
qed

section \<open>The order of the checks in patchUser\<close>

text \<open>
  C2. In patchUser, once the credential check has answered a falsy value, the comparison
  of \<^verbatim>\<open>newpassword\<close> with \<^verbatim>\<open>confirmnewpassword\<close> comes before the comparison of
  \<^verbatim>\<open>oldpassword\<close> with \<^verbatim>\<open>newpassword\<close>: a request whose new password differs from its
  confirmation ends in INVALID_PASSWORD whatever the old password is, and a request whose
  three passwords are equal ends in UNPROCESSABLE_ENTITY, after the credential check
  alone.
\<close>

theorem patch_confirm_checked_before_old:
  assumes "usersService (CheckLoginCredential (field (params request) ''id'')
                           (field (body request) ''oldpassword'')) (world s) = (Inr check, w1)"
      and "\<not> truthy check"
  shows "(strict_neq (field (body request) ''newpassword'') (field (body request) ''confirmnewpassword'')
          \<longrightarrow> fst (patchUser usersService request s) =
                Forwarded (ErrorResponse INVALID_PASSWORD
                  ''Your new password doesnt match the confirm new password!''))
       \<and> (field (body request) ''oldpassword'' = field (body request) ''newpassword''
          \<and> field (body request) ''newpassword'' = field (body request) ''confirmnewpassword''
          \<longrightarrow> patchUser usersService request s =
                (Forwarded (ErrorResponse UNPROCESSABLE_ENTITY
                   ''Your new password cant be the same as the old one!''),
                 \<lparr>world = w1,
                  calls = calls s @ [CheckLoginCredential (field (params request) ''id'')
                                                          (field (body request) ''oldpassword'')]\<rparr>))"
proof (intro conjI impI)
  assume "strict_neq (field (body request) ''newpassword'') (field (body request) ''confirmnewpassword'')"
  with assms show "fst (patchUser usersService request s) =
      Forwarded (ErrorResponse INVALID_PASSWORD
        ''Your new password doesnt match the confirm new password!'')"
    by (simp add: patchUser_confirm_mismatch)
next
  assume eq: "field (body request) ''oldpassword'' = field (body request) ''newpassword''
     \<and> field (body request) ''newpassword'' = field (body request) ''confirmnewpassword''"
  then have "\<not> strict_neq (field (body request) ''newpassword'') (field (body request) ''confirmnewpassword'')"
    and "strict_eq (field (body request) ''oldpassword'') (field (body request) ''newpassword'')"
    by (simp_all add: strict_neq_def strict_eq_def)
  with assms show "patchUser usersService request s =
      (Forwarded (ErrorResponse UNPROCESSABLE_ENTITY
         ''Your new password cant be the same as the old one!''),
       \<lparr>world = w1,
        calls = calls s @ [CheckLoginCredential (field (params request) ''id'')
                                                (field (body request) ''oldpassword'')]\<rparr>)"
    by (rule patchUser_same_as_old)
qed

theorem patch_confirm_checked_before_old_witness:
  "patchUser (demo_service False True) abcdef_request (start []) =
     (Forwarded (ErrorResponse UNPROCESSABLE_ENTITY
        ''Your new password cant be the same as the old one!''),
      \<lparr>world = [], calls = [CheckLoginCredential (JStr ''u1'') (JStr ''abcdef'')]\<rparr>)"
proof -
  have a: "demo_service False True
             (CheckLoginCredential (field (params abcdef_request) ''id'')
                (field (body abcdef_request) ''oldpassword'')) (world (start [])) = (Inr (JBool False), [])"
    by (simp add: start_def)
  have b: "\<not> truthy (JBool False)" by simp
  from patch_confirm_checked_before_old
         [where usersService = "demo_service False True" and request = abcdef_request
            and s = "start []", OF a b]
  show ?thesis by (simp add: abcdef_request_def field_def start_def)
qed

text \<open>
  C3. Every run of patchUser begins with the call
  \<^verbatim>\<open>checkLoginCredential(id, oldpassword)\<close>; when that call answers a truthy value, the
  handler ends in INVALID_PASSWORD with the message "Wrong password!" and that call is
  the only one made.
\<close>

theorem credential_check_first:
  "(\<exists>rest. calls (snd (patchUser usersService request s)) =
       calls s @ CheckLoginCredential (field (params request) ''id'')
                                      (field (body request) ''oldpassword'') # rest)
   \<and> (usersService (CheckLoginCredential (field (params request) ''id'')
                                           (field (body request) ''oldpassword'')) (world s)
          = (Inr check, w1) \<and> truthy check
        \<longrightarrow> patchUser usersService request s =
              (Forwarded (ErrorResponse INVALID_PASSWORD ''Wrong password!''),
               \<lparr>world = w1,
                calls = calls s @ [CheckLoginCredential (field (params request) ''id'')
                                                        (field (body request) ''oldpassword'')]\<rparr>))"
proof (intro conjI impI)
  let ?c = "CheckLoginCredential (field (params request) ''id'') (field (body request) ''oldpassword'')"
  let ?p = "PatchUser (field (params request) ''id'') (field (body request) ''oldpassword'')
              (field (body request) ''confirmnewpassword'')"
  show "\<exists>rest. calls (snd (patchUser usersService request s)) = calls s @ ?c # rest"
  proof (cases rule: await_cases [of usersService ?c s])
    case (returned v s1)
    then show ?thesis
      by (cases rule: await_cases [of usersService ?p "\<lparr>world = s1, calls = calls s @ [?c]\<rparr>"])
         (auto simp: patchUser_def Let_def)
  next
    case (rejected e s1)
    then show ?thesis by (auto simp: patchUser_def Let_def)
  qed
next
  let ?c = "CheckLoginCredential (field (params request) ''id'') (field (body request) ''oldpassword'')"
  assume "usersService ?c (world s) = (Inr check, w1) \<and> truthy check"
  then show "patchUser usersService request s =
              (Forwarded (ErrorResponse INVALID_PASSWORD ''Wrong password!''),
               \<lparr>world = w1, calls = calls s @ [?c]\<rparr>)"
    by (simp add: patchUser_wrong_password)
qed

theorem credential_check_first_witness:
  "patchUser (demo_service True True) abcdef_request (start []) =
     (Forwarded (ErrorResponse INVALID_PASSWORD ''Wrong password!''),
      \<lparr>world = [], calls = [CheckLoginCredential (JStr ''u1'') (JStr ''abcdef'')]\<rparr>)"
proof -
  have a: "demo_service True True
             (CheckLoginCredential (field (params abcdef_request) ''id'')
                (field (body abcdef_request) ''oldpassword'')) (world (start [])) = (Inr (JBool True), [])
           \<and> truthy (JBool True)"
    by (simp add: start_def)
  from credential_check_first
         [where usersService = "demo_service True True" and request = abcdef_request
            and s = "start []" and check = "JBool True" and ?w1.0 = "[]"] a
  show ?thesis by (simp add: abcdef_request_def field_def start_def)
qed

section \<open>The email already registered\<close>

text \<open>
  C4. In createUser and in updateUser, when the two password fields are strictly equal
  and the lookup of the email answers a truthy value, the handler ends in
  EMAIL_ALREADY_TAKEN, whatever the other fields are; the lookup is the only call made,
  so no mutation is.
\<close>

theorem registered_email_rejected:
  assumes "\<not> strict_neq (field (body request) ''confirmpassword'') (field (body request) ''password'')"
      and "usersService (CheckUserEmail (field (body request) ''email'')) (world s) = (Inr emailExists, w1)"
      and "truthy emailExists"
  shows "createUser usersService request s =
           (Forwarded (ErrorResponse EMAIL_ALREADY_TAKEN ''Email already taken''),
            \<lparr>world = w1, calls = calls s @ [CheckUserEmail (field (body request) ''email'')]\<rparr>)
       \<and> updateUser usersService request s =
           (Forwarded (ErrorResponse EMAIL_ALREADY_TAKEN ''Email already taken''),
            \<lparr>world = w1, calls = calls s @ [CheckUserEmail (field (body request) ''email'')]\<rparr>)
       \<and> filter mutating (calls (snd (createUser usersService request s))) = filter mutating (calls s)
       \<and> filter mutating (calls (snd (updateUser usersService request s))) = filter mutating (calls s)"
  using assms by (simp add: createUser_taken updateUser_taken)

theorem registered_email_rejected_witness:
  "createUser (demo_service False True) alice_request (start [JStr ''a@x.com'']) =
     (Forwarded (ErrorResponse EMAIL_ALREADY_TAKEN ''Email already taken''),
      \<lparr>world = [JStr ''a@x.com''], calls = [CheckUserEmail (JStr ''a@x.com'')]\<rparr>)
   \<and> updateUser (demo_service False True) alice_request (start [JStr ''a@x.com'']) =
     (Forwarded (ErrorResponse EMAIL_ALREADY_TAKEN ''Email already taken''),
      \<lparr>world = [JStr ''a@x.com''], calls = [CheckUserEmail (JStr ''a@x.com'')]\<rparr>)"
proof -
  have a: "\<not> strict_neq (field (body alice_request) ''confirmpassword'')
                        (field (body alice_request) ''password'')"
    by (simp add: alice_request_def field_def strict_neq_def)
  have b: "demo_service False True (CheckUserEmail (field (body alice_request) ''email''))
             (world (start [JStr ''a@x.com''])) = (Inr (JBool True), [JStr ''a@x.com''])"
    by (simp add: alice_request_def field_def start_def)
  have c: "truthy (JBool True)" by simp
  from registered_email_rejected
         [where usersService = "demo_service False True" and request = alice_request
            and s = "start [JStr ''a@x.com'']", OF a b c]
  show ?thesis by (simp add: alice_request_def field_def start_def)
qed

section \<open>Failures of the service\<close>

text \<open>
  C5. A service call that answers a falsy value is mapped as follows. getUser with no
  record ends in UNPROCESSABLE_ENTITY with the message "Unknown user", and every run of
  getUser ends in a response or in an error handed to \<^verbatim>\<open>next\<close>, the throw being inside
  the \<^verbatim>\<open>try\<close> block. A failed creation, update or deletion ends in
  UNPROCESSABLE_ENTITY, and a failed change of password in INVALID_CREDENTIALS; for
  createUser, updateUser and patchUser the failing call is reached once the checks
  before it have passed.
\<close>

theorem service_failures_mapped:
  "(usersService (GetUser (field (params request) ''id'')) (world s) = (Inr user, w1)
      \<and> \<not> truthy user
    \<longrightarrow> fst (getUser usersService request s) =
          Forwarded (ErrorResponse UNPROCESSABLE_ENTITY ''Unknown user''))
   \<and> (\<exists>error status json. fst (getUser usersService request s) = Forwarded error
          \<or> fst (getUser usersService request s) = Responded status json)
   \<and> (\<not> strict_neq (field (body request) ''confirmpassword'') (field (body request) ''password'')
      \<and> usersService (CheckUserEmail (field (body request) ''email'')) (world s) = (Inr emailExists, w1)
      \<and> \<not> truthy emailExists
      \<and> usersService (CreateUser (field (body request) ''name'') (field (body request) ''email'')
                                 (field (body request) ''password'')) w1 = (Inr success, w2)
      \<and> \<not> truthy success
    \<longrightarrow> fst (createUser usersService request s) =
          Forwarded (ErrorResponse UNPROCESSABLE_ENTITY ''Failed to create user''))
   \<and> (\<not> strict_neq (field (body request) ''confirmpassword'') (field (body request) ''password'')
      \<and> usersService (CheckUserEmail (field (body request) ''email'')) (world s) = (Inr emailExists, w1)
      \<and> \<not> truthy emailExists
      \<and> usersService (UpdateUser (field (params request) ''id'') (field (body request) ''name'')
                                 (field (body request) ''email'')) w1 = (Inr success, w2)
      \<and> \<not> truthy success
    \<longrightarrow> fst (updateUser usersService request s) =
          Forwarded (ErrorResponse UNPROCESSABLE_ENTITY ''Failed to update user''))
   \<and> (usersService (DeleteUser (field (params request) ''id'')) (world s) = (Inr success, w1)
      \<and> \<not> truthy success
    \<longrightarrow> fst (deleteUser usersService request s) =
          Forwarded (ErrorResponse UNPROCESSABLE_ENTITY ''Failed to delete user''))
   \<and> (usersService (CheckLoginCredential (field (params request) ''id'')
                                          (field (body request) ''oldpassword'')) (world s) = (Inr check, w1)
      \<and> \<not> truthy check
      \<and> \<not> strict_neq (field (body request) ''newpassword'') (field (body request) ''confirmnewpassword'')
      \<and> \<not> strict_eq (field (body request) ''oldpassword'') (field (body request) ''newpassword'')
      \<and> usersService (PatchUser (field (params request) ''id'') (field (body request) ''oldpassword'')
                                (field (body request) ''confirmnewpassword'')) w1 = (Inr patched, w2)
      \<and> \<not> truthy patched
    \<longrightarrow> fst (patchUser usersService request s) =
          Forwarded (ErrorResponse INVALID_CREDENTIALS ''Fail to patch user''))"
proof (intro conjI impI)
  show "\<exists>error status json. fst (getUser usersService request s) = Forwarded error
          \<or> fst (getUser usersService request s) = Responded status json"
    by (cases "fst (getUser usersService request s)") auto
qed (simp_all add: getUser_unknown createUser_failed updateUser_failed deleteUser_failed
       patchUser_failed)

theorem service_failures_mapped_witness:
  "fst (getUser (demo_service False False) \<lparr>params = [(''id'', JStr ''u2'')], body = []\<rparr> (start [])) =
     Forwarded (ErrorResponse UNPROCESSABLE_ENTITY ''Unknown user'')
   \<and> fst (createUser (demo_service False False) alice_request (start [])) =
     Forwarded (ErrorResponse UNPROCESSABLE_ENTITY ''Failed to create user'')
   \<and> fst (updateUser (demo_service False False) alice_request (start [])) =
     Forwarded (ErrorResponse UNPROCESSABLE_ENTITY ''Failed to update user'')
   \<and> fst (deleteUser (demo_service False False) alice_request (start [])) =
     Forwarded (ErrorResponse UNPROCESSABLE_ENTITY ''Failed to delete user'')
   \<and> fst (patchUser (demo_service False False) change_request (start [])) =
     Forwarded (ErrorResponse INVALID_CREDENTIALS ''Fail to patch user'')"
proof (intro conjI)
  show "fst (getUser (demo_service False False) \<lparr>params = [(''id'', JStr ''u2'')], body = []\<rparr> (start [])) =
     Forwarded (ErrorResponse UNPROCESSABLE_ENTITY ''Unknown user'')"
    using service_failures_mapped
           [where usersService = "demo_service False False"
              and request = "\<lparr>params = [(''id'', JStr ''u2'')], body = []\<rparr>"
              and s = "start []" and user = JNull and ?w1.0 = "[]"]
    by (simp add: field_def start_def)
  show "fst (createUser (demo_service False False) alice_request (start [])) =
     Forwarded (ErrorResponse UNPROCESSABLE_ENTITY ''Failed to create user'')"
    using service_failures_mapped
           [where usersService = "demo_service False False" and request = alice_request
              and s = "start []" and emailExists = "JBool False" and ?w1.0 = "[]"
              and success = "JBool False" and ?w2.0 = "[]"]
    by (simp add: field_def start_def alice_request_def strict_neq_def)
  show "fst (updateUser (demo_service False False) alice_request (start [])) =
     Forwarded (ErrorResponse UNPROCESSABLE_ENTITY ''Failed to update user'')"
    using service_failures_mapped
           [where usersService = "demo_service False False" and request = alice_request
              and s = "start []" and emailExists = "JBool False" and ?w1.0 = "[]"
              and success = "JBool False" and ?w2.0 = "[]"]
    by (simp add: field_def start_def alice_request_def strict_neq_def)
  show "fst (deleteUser (demo_service False False) alice_request (start [])) =
     Forwarded (ErrorResponse UNPROCESSABLE_ENTITY ''Failed to delete user'')"
    using service_failures_mapped
           [where usersService = "demo_service False False" and request = alice_request
              and s = "start []" and success = "JBool False" and ?w1.0 = "[]"]
    by (simp add: field_def start_def alice_request_def)
  show "fst (patchUser (demo_service False False) change_request (start [])) =
     Forwarded (ErrorResponse INVALID_CREDENTIALS ''Fail to patch user'')"
    using service_failures_mapped
           [where usersService = "demo_service False False" and request = change_request
              and s = "start []" and check = "JBool False" and ?w1.0 = "[]"
              and patched = "JBool False" and ?w2.0 = "[]"]
    by (simp add: field_def start_def change_request_def strict_neq_def strict_eq_def)
qed

section \<open>The calls made by each handler\<close>

lemma made_same [simp]: "made s (out, s) = []"
  by (simp add: made_def)

lemma made_appended [simp]: "made s (out, \<lparr>world = w, calls = calls s @ cs\<rparr>) = cs"
  by (simp add: made_def)

lemma getUsers_made: "made s (getUsers usersService request s) = [GetUsers]"
  by (cases rule: await_cases [of usersService GetUsers s]) (simp_all add: getUsers_def)

lemma getUser_made:
  "made s (getUser usersService request s) = [GetUser (field (params request) ''id'')]"
  by (cases rule: await_cases [of usersService "GetUser (field (params request) ''id'')" s])
     (simp_all add: getUser_def)

lemma deleteUser_made:
  "made s (deleteUser usersService request s) = [DeleteUser (field (params request) ''id'')]"
  by (cases rule: await_cases [of usersService "DeleteUser (field (params request) ''id'')" s])
     (simp_all add: deleteUser_def Let_def)

lemma createUser_made:
  "made s (createUser usersService request s) =
     (if strict_neq (field (body request) ''confirmpassword'') (field (body request) ''password'')
      then []
      else case usersService (CheckUserEmail (field (body request) ''email'')) (world s) of
             (Inl e, w1) \<Rightarrow> [CheckUserEmail (field (body request) ''email'')]
           | (Inr v, w1) \<Rightarrow>
               if truthy v then [CheckUserEmail (field (body request) ''email'')]
               else [CheckUserEmail (field (body request) ''email''),
                     CreateUser (field (body request) ''name'') (field (body request) ''email'')
                                (field (body request) ''password'')])"
proof (cases "strict_neq (field (body request) ''confirmpassword'') (field (body request) ''password'')")
  case True
  then show ?thesis by (simp add: createUser_mismatch)
next
  case False
  let ?c1 = "CheckUserEmail (field (body request) ''email'')"
  let ?c2 = "CreateUser (field (body request) ''name'') (field (body request) ''email'')
                                (field (body request) ''password'')"
  show ?thesis
  proof (cases rule: await_cases [of usersService ?c1 s])
    case (rejected e w1)
    with False show ?thesis by (simp add: createUser_lookup_rejected)
  next
    case lookup: (returned v w1)
    show ?thesis
    proof (cases "truthy v")
      case True
      with False lookup show ?thesis by (simp add: createUser_taken)
    next
      case falsy: False
      obtain r w2 where r: "usersService ?c2 w1 = (r, w2)" by (cases "usersService ?c2 w1")
      show ?thesis
      proof (cases r)
        case (Inl e)
        with False lookup falsy r show ?thesis by (simp add: createUser_create_rejected)
      next
        case (Inr x)
        with False lookup falsy r show ?thesis
          by (cases "truthy x") (simp_all add: createUser_failed createUser_success)
      qed
    qed
  qed
qed

lemma updateUser_made:
  "made s (updateUser usersService request s) =
     (if strict_neq (field (body request) ''confirmpassword'') (field (body request) ''password'')
      then []
      else case usersService (CheckUserEmail (field (body request) ''email'')) (world s) of
             (Inl e, w1) \<Rightarrow> [CheckUserEmail (field (body request) ''email'')]
           | (Inr v, w1) \<Rightarrow>
               if truthy v then [CheckUserEmail (field (body request) ''email'')]
               else [CheckUserEmail (field (body request) ''email''),
                     UpdateUser (field (params request) ''id'') (field (body request) ''name'')
                                (field (body request) ''email'')])"
proof (cases "strict_neq (field (body request) ''confirmpassword'') (field (body request) ''password'')")
  case True
  then show ?thesis by (simp add: updateUser_mismatch)
next
  case False
  let ?c1 = "CheckUserEmail (field (body request) ''email'')"
  let ?c2 = "UpdateUser (field (params request) ''id'') (field (body request) ''name'')
                                (field (body request) ''email'')"
  show ?thesis
  proof (cases rule: await_cases [of usersService ?c1 s])
    case (rejected e w1)
    with False show ?thesis by (simp add: updateUser_lookup_rejected)
  next
    case lookup: (returned v w1)
    show ?thesis
    proof (cases "truthy v")
      case True
      with False lookup show ?thesis by (simp add: updateUser_taken)
    next
      case falsy: False
      obtain r w2 where r: "usersService ?c2 w1 = (r, w2)" by (cases "usersService ?c2 w1")
      show ?thesis
      proof (cases r)
        case (Inl e)
        with False lookup falsy r show ?thesis by (simp add: updateUser_update_rejected)
      next
        case (Inr x)
        with False lookup falsy r show ?thesis
          by (cases "truthy x") (simp_all add: updateUser_failed updateUser_success)
      qed
    qed
  qed
qed

lemma patchUser_made:
  "made s (patchUser usersService request s) =
     (case usersService (CheckLoginCredential (field (params request) ''id'')
                           (field (body request) ''oldpassword'')) (world s) of
        (Inl e, w1) \<Rightarrow> [CheckLoginCredential (field (params request) ''id'')
                           (field (body request) ''oldpassword'')]
      | (Inr v, w1) \<Rightarrow>
          if truthy v
             \<or> strict_neq (field (body request) ''newpassword'') (field (body request) ''confirmnewpassword'')
             \<or> strict_eq (field (body request) ''oldpassword'') (field (body request) ''newpassword'')
          then [CheckLoginCredential (field (params request) ''id'')
                  (field (body request) ''oldpassword'')]
          else [CheckLoginCredential (field (params request) ''id'')
                  (field (body request) ''oldpassword''),
                PatchUser (field (params request) ''id'') (field (body request) ''oldpassword'')
                  (field (body request) ''confirmnewpassword'')])"
proof -
  let ?c1 = "CheckLoginCredential (field (params request) ''id'') (field (body request) ''oldpassword'')"
  let ?c2 = "PatchUser (field (params request) ''id'') (field (body request) ''oldpassword'')
                  (field (body request) ''confirmnewpassword'')"
  show ?thesis
  proof (cases rule: await_cases [of usersService ?c1 s])
    case (rejected e w1)
    then show ?thesis by (simp add: patchUser_check_rejected)
  next
    case check: (returned v w1)
    show ?thesis
    proof (cases "truthy v")
      case True
      with check show ?thesis by (simp add: patchUser_wrong_password)
    next
      case falsy: False
      show ?thesis
      proof (cases "strict_neq (field (body request) ''newpassword'') (field (body request) ''confirmnewpassword'')")
        case True
        with check falsy show ?thesis by (simp add: patchUser_confirm_mismatch)
      next
        case same: False
        show ?thesis
        proof (cases "strict_eq (field (body request) ''oldpassword'') (field (body request) ''newpassword'')")
          case True
          with check falsy same show ?thesis by (simp add: patchUser_same_as_old)
        next
          case differs: False
          obtain r w2 where r: "usersService ?c2 w1 = (r, w2)" by (cases "usersService ?c2 w1")
          show ?thesis
          proof (cases r)
            case (Inl e)
            with check falsy same differs r show ?thesis by (simp add: patchUser_patch_rejected)
          next
            case (Inr x)
            with check falsy same differs r show ?thesis
              by (cases "truthy x") (simp_all add: patchUser_failed patchUser_success)
          qed
        qed
      qed
    qed
  qed
qed

lemma createUser_mutation_guarded:
  "list_ex mutating (made s (createUser usersService request s)) \<Longrightarrow>
   \<not> strict_neq (field (body request) ''confirmpassword'') (field (body request) ''password'')
   \<and> (\<exists>x w. usersService (CheckUserEmail (field (body request) ''email'')) (world s) = (Inr x, w)
            \<and> \<not> truthy x)"
  by (auto simp: createUser_made split: if_splits prod.splits sum.splits)

lemma updateUser_mutation_guarded:
  "list_ex mutating (made s (updateUser usersService request s)) \<Longrightarrow>
   \<not> strict_neq (field (body request) ''confirmpassword'') (field (body request) ''password'')
   \<and> (\<exists>x w. usersService (CheckUserEmail (field (body request) ''email'')) (world s) = (Inr x, w)
            \<and> \<not> truthy x)"
  by (auto simp: updateUser_made split: if_splits prod.splits sum.splits)

lemma patchUser_mutation_guarded:
  "list_ex mutating (made s (patchUser usersService request s)) \<Longrightarrow>
   (\<exists>x w. usersService (CheckLoginCredential (field (params request) ''id'')
              (field (body request) ''oldpassword'')) (world s) = (Inr x, w)
          \<and> \<not> truthy x)
   \<and> \<not> strict_neq (field (body request) ''newpassword'') (field (body request) ''confirmnewpassword'')
   \<and> \<not> strict_eq (field (body request) ''oldpassword'') (field (body request) ''newpassword'')"
  by (auto simp: patchUser_made split: if_splits prod.splits sum.splits)

section \<open>Mutations come after the checks\<close>

text \<open>
  C6. For every exported handler and every request, a call of the service that creates,
  updates, patches or deletes can only be the last call of the run. getUsers and getUser
  make no such call, and deleteUser, which has no check before it, makes its one call. In
  createUser and updateUser the password comparison comes first and the email lookup
  second; in patchUser the credential check comes first, the comparison of the new
  password with its confirmation second and the comparison with the old password third.
  The first of these checks to fail gives the one error the run ends in, with no mutating
  call made; and whenever a mutating call has been made, every check before it has
  passed.
\<close>

theorem mutation_only_after_guards:
  "(\<forall>c \<in> set (butlast (made s (exports h usersService request s))). \<not> mutating c)
   \<and> (h = Name_getUsers \<or> h = Name_getUser
      \<longrightarrow> \<not> list_ex mutating (made s (exports h usersService request s)))
   \<and> (h = Name_deleteUser
      \<longrightarrow> made s (exports h usersService request s) = [DeleteUser (field (params request) ''id'')])
   \<and> (h = Name_createUser \<or> h = Name_updateUser
      \<longrightarrow> (strict_neq (field (body request) ''confirmpassword'') (field (body request) ''password'')
           \<longrightarrow> exports h usersService request s =
                 (Forwarded (ErrorResponse INVALID_PASSWORD ''Passwords did not match''), s))
        \<and> (\<not> strict_neq (field (body request) ''confirmpassword'') (field (body request) ''password'')
             \<and> usersService (CheckUserEmail (field (body request) ''email'')) (world s) = (Inr v, w1)
             \<and> truthy v
           \<longrightarrow> fst (exports h usersService request s) =
                 Forwarded (ErrorResponse EMAIL_ALREADY_TAKEN ''Email already taken'')
               \<and> \<not> list_ex mutating (made s (exports h usersService request s)))
        \<and> (list_ex mutating (made s (exports h usersService request s))
           \<longrightarrow> \<not> strict_neq (field (body request) ''confirmpassword'') (field (body request) ''password'')
               \<and> (\<exists>x w. usersService (CheckUserEmail (field (body request) ''email'')) (world s) = (Inr x, w)
                        \<and> \<not> truthy x)))
   \<and> (h = Name_patchUser
      \<longrightarrow> (usersService (CheckLoginCredential (field (params request) ''id'')
                            (field (body request) ''oldpassword'')) (world s) = (Inr v, w1)
             \<and> truthy v
           \<longrightarrow> fst (exports h usersService request s) =
                 Forwarded (ErrorResponse INVALID_PASSWORD ''Wrong password!'')
               \<and> \<not> list_ex mutating (made s (exports h usersService request s)))
        \<and> (usersService (CheckLoginCredential (field (params request) ''id'')
                            (field (body request) ''oldpassword'')) (world s) = (Inr v, w1)
             \<and> \<not> truthy v
             \<and> strict_neq (field (body request) ''newpassword'') (field (body request) ''confirmnewpassword'')
           \<longrightarrow> fst (exports h usersService request s) =
                 Forwarded (ErrorResponse INVALID_PASSWORD
                   ''Your new password doesnt match the confirm new password!'')
               \<and> \<not> list_ex mutating (made s (exports h usersService request s)))
        \<and> (usersService (CheckLoginCredential (field (params request) ''id'')
                            (field (body request) ''oldpassword'')) (world s) = (Inr v, w1)
             \<and> \<not> truthy v
             \<and> \<not> strict_neq (field (body request) ''newpassword'') (field (body request) ''confirmnewpassword'')
             \<and> strict_eq (field (body request) ''oldpassword'') (field (body request) ''newpassword'')
           \<longrightarrow> fst (exports h usersService request s) =
                 Forwarded (ErrorResponse UNPROCESSABLE_ENTITY
                   ''Your new password cant be the same as the old one!'')
               \<and> \<not> list_ex mutating (made s (exports h usersService request s)))
        \<and> (list_ex mutating (made s (exports h usersService request s))
           \<longrightarrow> (\<exists>x w. usersService (CheckLoginCredential (field (params request) ''id'')
                            (field (body request) ''oldpassword'')) (world s) = (Inr x, w)
                        \<and> \<not> truthy x)
               \<and> \<not> strict_neq (field (body request) ''newpassword'') (field (body request) ''confirmnewpassword'')
               \<and> \<not> strict_eq (field (body request) ''oldpassword'') (field (body request) ''newpassword'')))"
proof (intro conjI)
  show "\<forall>c \<in> set (butlast (made s (exports h usersService request s))). \<not> mutating c"
    by (cases h)
       (auto simp: getUsers_made getUser_made deleteUser_made createUser_made updateUser_made
          patchUser_made split: prod.splits sum.splits)
  show "h = Name_getUsers \<or> h = Name_getUser
      \<longrightarrow> \<not> list_ex mutating (made s (exports h usersService request s))"
    by (auto simp: getUsers_made getUser_made)
  show "h = Name_deleteUser
      \<longrightarrow> made s (exports h usersService request s) = [DeleteUser (field (params request) ''id'')]"
    by (simp add: deleteUser_made)
  show "h = Name_createUser \<or> h = Name_updateUser
      \<longrightarrow> (strict_neq (field (body request) ''confirmpassword'') (field (body request) ''password'')
           \<longrightarrow> exports h usersService request s =
                 (Forwarded (ErrorResponse INVALID_PASSWORD ''Passwords did not match''), s))
        \<and> (\<not> strict_neq (field (body request) ''confirmpassword'') (field (body request) ''password'')
             \<and> usersService (CheckUserEmail (field (body request) ''email'')) (world s) = (Inr v, w1)
             \<and> truthy v
           \<longrightarrow> fst (exports h usersService request s) =
                 Forwarded (ErrorResponse EMAIL_ALREADY_TAKEN ''Email already taken'')
               \<and> \<not> list_ex mutating (made s (exports h usersService request s)))
        \<and> (list_ex mutating (made s (exports h usersService request s))
           \<longrightarrow> \<not> strict_neq (field (body request) ''confirmpassword'') (field (body request) ''password'')
               \<and> (\<exists>x w. usersService (CheckUserEmail (field (body request) ''email'')) (world s) = (Inr x, w)
                        \<and> \<not> truthy x))"
  proof (intro impI)
    assume "h = Name_createUser \<or> h = Name_updateUser"
    then show "(strict_neq (field (body request) ''confirmpassword'') (field (body request) ''password'')
           \<longrightarrow> exports h usersService request s =
                 (Forwarded (ErrorResponse INVALID_PASSWORD ''Passwords did not match''), s))
        \<and> (\<not> strict_neq (field (body request) ''confirmpassword'') (field (body request) ''password'')
             \<and> usersService (CheckUserEmail (field (body request) ''email'')) (world s) = (Inr v, w1)
             \<and> truthy v
           \<longrightarrow> fst (exports h usersService request s) =
                 Forwarded (ErrorResponse EMAIL_ALREADY_TAKEN ''Email already taken'')
               \<and> \<not> list_ex mutating (made s (exports h usersService request s)))
        \<and> (list_ex mutating (made s (exports h usersService request s))
           \<longrightarrow> \<not> strict_neq (field (body request) ''confirmpassword'') (field (body request) ''password'')
               \<and> (\<exists>x w. usersService (CheckUserEmail (field (body request) ''email'')) (world s) = (Inr x, w)
                        \<and> \<not> truthy x))"
    proof
      assume h: "h = Name_createUser"
      show ?thesis
        unfolding h exports.simps
        by (intro conjI impI createUser_mismatch createUser_mutation_guarded)
           (simp_all add: createUser_taken)
    next
      assume h: "h = Name_updateUser"
      show ?thesis
        unfolding h exports.simps
        by (intro conjI impI updateUser_mismatch updateUser_mutation_guarded)
           (simp_all add: updateUser_taken)
    qed
  qed
  show "h = Name_patchUser
      \<longrightarrow> (usersService (CheckLoginCredential (field (params request) ''id'')
                            (field (body request) ''oldpassword'')) (world s) = (Inr v, w1)
             \<and> truthy v
           \<longrightarrow> fst (exports h usersService request s) =
                 Forwarded (ErrorResponse INVALID_PASSWORD ''Wrong password!'')
               \<and> \<not> list_ex mutating (made s (exports h usersService request s)))
        \<and> (usersService (CheckLoginCredential (field (params request) ''id'')
                            (field (body request) ''oldpassword'')) (world s) = (Inr v, w1)
             \<and> \<not> truthy v
             \<and> strict_neq (field (body request) ''newpassword'') (field (body request) ''confirmnewpassword'')
           \<longrightarrow> fst (exports h usersService request s) =
                 Forwarded (ErrorResponse INVALID_PASSWORD
                   ''Your new password doesnt match the confirm new password!'')
               \<and> \<not> list_ex mutating (made s (exports h usersService request s)))
        \<and> (usersService (CheckLoginCredential (field (params request) ''id'')
                            (field (body request) ''oldpassword'')) (world s) = (Inr v, w1)
             \<and> \<not> truthy v
             \<and> \<not> strict_neq (field (body request) ''newpassword'') (field (body request) ''confirmnewpassword'')
             \<and> strict_eq (field (body request) ''oldpassword'') (field (body request) ''newpassword'')
           \<longrightarrow> fst (exports h usersService request s) =
                 Forwarded (ErrorResponse UNPROCESSABLE_ENTITY
                   ''Your new password cant be the same as the old one!'')
               \<and> \<not> list_ex mutating (made s (exports h usersService request s)))
        \<and> (list_ex mutating (made s (exports h usersService request s))
           \<longrightarrow> (\<exists>x w. usersService (CheckLoginCredential (field (params request) ''id'')
                            (field (body request) ''oldpassword'')) (world s) = (Inr x, w)
                        \<and> \<not> truthy x)
               \<and> \<not> strict_neq (field (body request) ''newpassword'') (field (body request) ''confirmnewpassword'')
               \<and> \<not> strict_eq (field (body request) ''oldpassword'') (field (body request) ''newpassword''))"
  proof (intro impI)
    assume h: "h = Name_patchUser"
    show "(usersService (CheckLoginCredential (field (params request) ''id'')
                            (field (body request) ''oldpassword'')) (world s) = (Inr v, w1)
             \<and> truthy v
           \<longrightarrow> fst (exports h usersService request s) =
                 Forwarded (ErrorResponse INVALID_PASSWORD ''Wrong password!'')
               \<and> \<not> list_ex mutating (made s (exports h usersService request s)))
        \<and> (usersService (CheckLoginCredential (field (params request) ''id'')
                            (field (body request) ''oldpassword'')) (world s) = (Inr v, w1)
             \<and> \<not> truthy v
             \<and> strict_neq (field (body request) ''newpassword'') (field (body request) ''confirmnewpassword'')
           \<longrightarrow> fst (exports h usersService request s) =
                 Forwarded (ErrorResponse INVALID_PASSWORD
                   ''Your new password doesnt match the confirm new password!'')
               \<and> \<not> list_ex mutating (made s (exports h usersService request s)))
        \<and> (usersService (CheckLoginCredential (field (params request) ''id'')
                            (field (body request) ''oldpassword'')) (world s) = (Inr v, w1)
             \<and> \<not> truthy v
             \<and> \<not> strict_neq (field (body request) ''newpassword'') (field (body request) ''confirmnewpassword'')
             \<and> strict_eq (field (body request) ''oldpassword'') (field (body request) ''newpassword'')
           \<longrightarrow> fst (exports h usersService request s) =
                 Forwarded (ErrorResponse UNPROCESSABLE_ENTITY
                   ''Your new password cant be the same as the old one!'')
               \<and> \<not> list_ex mutating (made s (exports h usersService request s)))
        \<and> (list_ex mutating (made s (exports h usersService request s))
           \<longrightarrow> (\<exists>x w. usersService (CheckLoginCredential (field (params request) ''id'')
                            (field (body request) ''oldpassword'')) (world s) = (Inr x, w)
                        \<and> \<not> truthy x)
               \<and> \<not> strict_neq (field (body request) ''newpassword'') (field (body request) ''confirmnewpassword'')
               \<and> \<not> strict_eq (field (body request) ''oldpassword'') (field (body request) ''newpassword''))"
      unfolding h exports.simps
      by (intro conjI impI patchUser_mutation_guarded)
         (simp_all add: patchUser_wrong_password patchUser_confirm_mismatch patchUser_same_as_old)
  qed
qed

theorem mutation_only_after_guards_witness:
  "(fst (exports Name_createUser (demo_service False True) alice_request (start [JStr ''a@x.com''])) =
      Forwarded (ErrorResponse EMAIL_ALREADY_TAKEN ''Email already taken'')
    \<and> \<not> list_ex mutating (made (start [JStr ''a@x.com''])
            (exports Name_createUser (demo_service False True) alice_request (start [JStr ''a@x.com'']))))
   \<and> (fst (exports Name_patchUser (demo_service True True) abcdef_request (start [])) =
      Forwarded (ErrorResponse INVALID_PASSWORD ''Wrong password!'')
    \<and> \<not> list_ex mutating (made (start [])
            (exports Name_patchUser (demo_service True True) abcdef_request (start []))))
   \<and> (fst (exports Name_patchUser (demo_service False True) abcdef_request (start [])) =
      Forwarded (ErrorResponse UNPROCESSABLE_ENTITY
        ''Your new password cant be the same as the old one!'')
    \<and> \<not> list_ex mutating (made (start [])
            (exports Name_patchUser (demo_service False True) abcdef_request (start []))))"
proof (intro conjI)
  have taken: "\<not> strict_neq (field (body alice_request) ''confirmpassword'')
                            (field (body alice_request) ''password'')
     \<and> demo_service False True (CheckUserEmail (field (body alice_request) ''email''))
         (world (start [JStr ''a@x.com''])) = (Inr (JBool True), [JStr ''a@x.com''])
     \<and> truthy (JBool True)"
    by (simp add: alice_request_def field_def strict_neq_def start_def)
  from mutation_only_after_guards
         [where h = Name_createUser and usersService = "demo_service False True"
            and request = alice_request and s = "start [JStr ''a@x.com'']"
            and v = "JBool True" and ?w1.0 = "[JStr ''a@x.com'']"] taken
  show "fst (exports Name_createUser (demo_service False True) alice_request (start [JStr ''a@x.com''])) =
      Forwarded (ErrorResponse EMAIL_ALREADY_TAKEN ''Email already taken'')"
    and "\<not> list_ex mutating (made (start [JStr ''a@x.com''])
            (exports Name_createUser (demo_service False True) alice_request (start [JStr ''a@x.com''])))"
    by (simp_all add: alice_request_def abcdef_request_def field_def start_def strict_neq_def strict_eq_def)
  have wrong: "demo_service True True
       (CheckLoginCredential (field (params abcdef_request) ''id'')
          (field (body abcdef_request) ''oldpassword'')) (world (start [])) = (Inr (JBool True), [])
     \<and> truthy (JBool True)"
    by (simp add: start_def)
  from mutation_only_after_guards
         [where h = Name_patchUser and usersService = "demo_service True True"
            and request = abcdef_request and s = "start []"
            and v = "JBool True" and ?w1.0 = "[]"] wrong
  show "fst (exports Name_patchUser (demo_service True True) abcdef_request (start [])) =
      Forwarded (ErrorResponse INVALID_PASSWORD ''Wrong password!'')"
    and "\<not> list_ex mutating (made (start [])
            (exports Name_patchUser (demo_service True True) abcdef_request (start [])))"
    by (simp_all add: alice_request_def abcdef_request_def field_def start_def strict_neq_def strict_eq_def)
  have same: "demo_service False True
       (CheckLoginCredential (field (params abcdef_request) ''id'')
          (field (body abcdef_request) ''oldpassword'')) (world (start [])) = (Inr (JBool False), [])
     \<and> \<not> truthy (JBool False)
     \<and> \<not> strict_neq (field (body abcdef_request) ''newpassword'')
                     (field (body abcdef_request) ''confirmnewpassword'')
     \<and> strict_eq (field (body abcdef_request) ''oldpassword'')
                 (field (body abcdef_request) ''newpassword'')"
    by (simp add: start_def abcdef_request_def field_def strict_neq_def strict_eq_def)
  from mutation_only_after_guards
         [where h = Name_patchUser and usersService = "demo_service False True"
            and request = abcdef_request and s = "start []"
            and v = "JBool False" and ?w1.0 = "[]"] same
  show "fst (exports Name_patchUser (demo_service False True) abcdef_request (start [])) =
      Forwarded (ErrorResponse UNPROCESSABLE_ENTITY
        ''Your new password cant be the same as the old one!'')"
    and "\<not> list_ex mutating (made (start [])
            (exports Name_patchUser (demo_service False True) abcdef_request (start [])))"
    by (simp_all add: alice_request_def abcdef_request_def field_def start_def strict_neq_def strict_eq_def)
qed

section \<open>The response of createUser\<close>

text \<open>
  C8. When the password fields are strictly equal, the email lookup answers a falsy
  value and the creation a truthy one, createUser answers with status 200 and the object
  of exactly the two properties \<^verbatim>\<open>name\<close> and \<^verbatim>\<open>email\<close> of the request. The password is
  not echoed back: the response has no property for it and is built from the name and
  the email alone, so any other successful request with the same name and email gets the
  same response, whatever its password, the service behind it and the state it runs in.
\<close>

theorem create_response_name_email:
  assumes "\<not> strict_neq (field (body request) ''confirmpassword'') (field (body request) ''password'')"
      and "usersService (CheckUserEmail (field (body request) ''email'')) (world s) = (Inr emailExists, w1)"
      and "\<not> truthy emailExists"
      and "usersService (CreateUser (field (body request) ''name'') (field (body request) ''email'')
                                    (field (body request) ''password'')) w1 = (Inr success, w2)"
      and "truthy success"
  shows "fst (createUser usersService request s) =
           Responded 200 (JsonObject [(''name'', field (body request) ''name''),
                                      (''email'', field (body request) ''email'')])
       \<and> property_names (fst (createUser usersService request s)) = [''name'', ''email'']
       \<and> (\<not> strict_neq (field (body other) ''confirmpassword'') (field (body other) ''password'')
            \<and> otherService (CheckUserEmail (field (body other) ''email'')) (world t)
                = (Inr otherExists, u1)
            \<and> \<not> truthy otherExists
            \<and> otherService (CreateUser (field (body other) ''name'') (field (body other) ''email'')
                                       (field (body other) ''password'')) u1 = (Inr otherSuccess, u2)
            \<and> truthy otherSuccess
            \<and> field (body other) ''name'' = field (body request) ''name''
            \<and> field (body other) ''email'' = field (body request) ''email''
          \<longrightarrow> fst (createUser otherService other t) = fst (createUser usersService request s))"
proof (intro conjI impI)
  from createUser_success [where s = s, OF assms]
  show first: "fst (createUser usersService request s) =
           Responded 200 (JsonObject [(''name'', field (body request) ''name''),
                                      (''email'', field (body request) ''email'')])"
    by simp
  then show "property_names (fst (createUser usersService request s)) = [''name'', ''email'']"
    by simp
  assume other: "\<not> strict_neq (field (body other) ''confirmpassword'') (field (body other) ''password'')
            \<and> otherService (CheckUserEmail (field (body other) ''email'')) (world t)
                = (Inr otherExists, u1)
            \<and> \<not> truthy otherExists
            \<and> otherService (CreateUser (field (body other) ''name'') (field (body other) ''email'')
                                       (field (body other) ''password'')) u1 = (Inr otherSuccess, u2)
            \<and> truthy otherSuccess
            \<and> field (body other) ''name'' = field (body request) ''name''
            \<and> field (body other) ''email'' = field (body request) ''email''"
  then have o1: "\<not> strict_neq (field (body other) ''confirmpassword'') (field (body other) ''password'')"
    and o2: "otherService (CheckUserEmail (field (body other) ''email'')) (world t)
                = (Inr otherExists, u1)"
    and o3: "\<not> truthy otherExists"
    and o4: "otherService (CreateUser (field (body other) ''name'') (field (body other) ''email'')
                                       (field (body other) ''password'')) u1 = (Inr otherSuccess, u2)"
    and o5: "truthy otherSuccess"
    by blast+
  from createUser_success [where s = t, OF o1 o2 o3 o4 o5]
  have "fst (createUser otherService other t) =
           Responded 200 (JsonObject [(''name'', field (body other) ''name''),
                                      (''email'', field (body other) ''email'')])"
    by simp
  with first other show "fst (createUser otherService other t) = fst (createUser usersService request s)"
    by simp
qed

theorem create_response_name_email_witness:
  "fst (createUser (demo_service False True) alice_request (start [])) =
     Responded 200 (JsonObject [(''name'', JStr ''Alice''), (''email'', JStr ''a@x.com'')])
   \<and> fst (createUser (demo_service False True) alice_new_password_request (start [])) =
     Responded 200 (JsonObject [(''name'', JStr ''Alice''), (''email'', JStr ''a@x.com'')])"
proof -
  have a: "\<not> strict_neq (field (body alice_request) ''confirmpassword'')
                        (field (body alice_request) ''password'')"
    by (simp add: alice_request_def field_def strict_neq_def)
  have b: "demo_service False True (CheckUserEmail (field (body alice_request) ''email''))
             (world (start [])) = (Inr (JBool False), [])"
    by (simp add: start_def)
  have c: "\<not> truthy (JBool False)" by simp
  have d: "demo_service False True
             (CreateUser (field (body alice_request) ''name'') (field (body alice_request) ''email'')
                (field (body alice_request) ''password'')) [] =
           (Inr (JBool True), [field (body alice_request) ''email''])"
    by simp
  have e: "truthy (JBool True)" by simp
  have other: "\<not> strict_neq (field (body alice_new_password_request) ''confirmpassword'')
                            (field (body alice_new_password_request) ''password'')
     \<and> demo_service False True (CheckUserEmail (field (body alice_new_password_request) ''email''))
         (world (start [])) = (Inr (JBool False), [])
     \<and> \<not> truthy (JBool False)
     \<and> demo_service False True
         (CreateUser (field (body alice_new_password_request) ''name'')
            (field (body alice_new_password_request) ''email'')
            (field (body alice_new_password_request) ''password'')) [] =
        (Inr (JBool True), [JStr ''a@x.com''])
     \<and> truthy (JBool True)
     \<and> field (body alice_new_password_request) ''name'' = field (body alice_request) ''name''
     \<and> field (body alice_new_password_request) ''email'' = field (body alice_request) ''email''"
    by (simp add: alice_new_password_request_def alice_request_def field_def strict_neq_def
          start_def)
  note t = create_response_name_email
         [where usersService = "demo_service False True" and request = alice_request
            and s = "start []" and otherService = "demo_service False True"
            and other = alice_new_password_request and t = "start []"
            and otherExists = "JBool False" and ?u1.0 = "[]"
            and otherSuccess = "JBool True" and ?u2.0 = "[JStr ''a@x.com'']", OF a b c d e]
  have first: "fst (createUser (demo_service False True) alice_request (start [])) =
     Responded 200 (JsonObject [(''name'', JStr ''Alice''), (''email'', JStr ''a@x.com'')])"
    using t [THEN conjunct1] by (simp add: alice_request_def field_def)
  have "fst (createUser (demo_service False True) alice_new_password_request (start [])) =
        fst (createUser (demo_service False True) alice_request (start []))"
    by (rule t [THEN conjunct2, THEN conjunct2, THEN mp]) (rule other)
  with first show ?thesis by simp
qed

section \<open>The argument of the password change\<close>

text \<open>
  C10. patchUser hands \<^verbatim>\<open>confirmnewpassword\<close> to the service. The handler that hands it
  \<^verbatim>\<open>newpassword\<close> instead gives, for every service, request and state, the same outcome,
  the same world and the same calls: the call is reached only when the two are strictly
  equal.
\<close>

theorem patch_argument_equivalent:
  "patchUser_passing_newpassword usersService request s = patchUser usersService request s"
  by (auto simp: patchUser_passing_newpassword_def patchUser_def Let_def strict_neq_def
        split: prod.splits sum.splits)

section \<open>The password fields of updateUser\<close>

lemma updateUser_no_mismatch:
  "\<not> strict_neq (field (body request) ''confirmpassword'') (field (body request) ''password'') \<Longrightarrow>
   fst (updateUser usersService request s) \<noteq> Forwarded (ErrorResponse INVALID_PASSWORD m)"
  by (auto simp: updateUser_def Let_def await_def errorResponder_def split: prod.splits sum.splits)

lemma accepts_strict_undeclared:
  assumes "accepts is_email False schema obj" and "k \<notin> set (declared_keys schema)"
  shows "field obj k = JUndefined"
proof -
  from assms(1) have "filter (\<lambda>k. k \<notin> set (map fst schema)) (map fst obj) = []"
    by (simp add: accepts_def validate_body_def)
  then have "\<forall>x \<in> set (map fst obj). x \<in> set (map fst schema)"
    by (simp add: filter_empty_conv)
  with assms(2) have "k \<notin> fst ` set obj"
    by (auto simp: declared_keys_def)
  then have "map_of obj k = None" by (simp add: map_of_eq_None_iff)
  then show ?thesis by (simp add: field_def)
qed

text \<open>
  C9. The schema of updateUser declares neither \<^verbatim>\<open>password\<close> nor \<^verbatim>\<open>confirmpassword\<close>,
  and the handler reads both from the body. When both are absent the comparison passes
  and the run goes on to the lookup of the email, so it does not end in an
  INVALID_PASSWORD of the handler; this holds of every body the schema accepts when keys
  it does not declare are refused. When exactly one of the two is there, the run ends in
  INVALID_PASSWORD with the message "Passwords did not match", with no call made.
\<close>

theorem update_password_fields_undeclared:
  "''password'' \<notin> set (declared_keys validator_updateUser)
   \<and> ''confirmpassword'' \<notin> set (declared_keys validator_updateUser)
   \<and> (field (body request) ''password'' = JUndefined
        \<and> field (body request) ''confirmpassword'' = JUndefined
      \<longrightarrow> fst (updateUser usersService request s) \<noteq> Forwarded (ErrorResponse INVALID_PASSWORD m)
          \<and> (\<exists>rest. made s (updateUser usersService request s) =
                      CheckUserEmail (field (body request) ''email'') # rest))
   \<and> (accepts is_email False validator_updateUser (body request)
      \<longrightarrow> fst (updateUser usersService request s) \<noteq> Forwarded (ErrorResponse INVALID_PASSWORD m))
   \<and> ((field (body request) ''password'' = JUndefined)
        \<noteq> (field (body request) ''confirmpassword'' = JUndefined)
      \<longrightarrow> updateUser usersService request s =
            (Forwarded (ErrorResponse INVALID_PASSWORD ''Passwords did not match''), s))"
proof (intro conjI impI)
  show undeclared: "''password'' \<notin> set (declared_keys validator_updateUser)"
    "''confirmpassword'' \<notin> set (declared_keys validator_updateUser)"
    by (simp_all add: declared_keys_def validator_updateUser_def)
  {
    assume absent: "field (body request) ''password'' = JUndefined
        \<and> field (body request) ''confirmpassword'' = JUndefined"
    then have eq: "\<not> strict_neq (field (body request) ''confirmpassword'') (field (body request) ''password'')"
      by (simp add: strict_neq_def)
    then show "fst (updateUser usersService request s) \<noteq> Forwarded (ErrorResponse INVALID_PASSWORD m)"
      by (rule updateUser_no_mismatch)
    from eq show "\<exists>rest. made s (updateUser usersService request s) =
                      CheckUserEmail (field (body request) ''email'') # rest"
      by (simp add: updateUser_made split: prod.splits sum.splits)
  }
  {
    assume "accepts is_email False validator_updateUser (body request)"
    then have "field (body request) ''password'' = JUndefined"
      and "field (body request) ''confirmpassword'' = JUndefined"
      using undeclared by (simp_all add: accepts_strict_undeclared)
    then have "\<not> strict_neq (field (body request) ''confirmpassword'') (field (body request) ''password'')"
      by (simp add: strict_neq_def)
    then show "fst (updateUser usersService request s) \<noteq> Forwarded (ErrorResponse INVALID_PASSWORD m)"
      by (rule updateUser_no_mismatch)
  }
  {
    assume "(field (body request) ''password'' = JUndefined)
        \<noteq> (field (body request) ''confirmpassword'' = JUndefined)"
    then have "strict_neq (field (body request) ''confirmpassword'') (field (body request) ''password'')"
      by (auto simp: strict_neq_def)
    then show "updateUser usersService request s =
            (Forwarded (ErrorResponse INVALID_PASSWORD ''Passwords did not match''), s)"
      by (rule updateUser_mismatch)
  }
qed


theorem update_password_fields_undeclared_witness:
  "accepts demo_is_email False validator_updateUser (body plain_update_request)
   \<and> fst (updateUser (demo_service False True) plain_update_request (start [])) \<noteq>
       Forwarded (ErrorResponse INVALID_PASSWORD ''Passwords did not match'')
   \<and> updateUser (demo_service False True) half_update_request (start []) =
       (Forwarded (ErrorResponse INVALID_PASSWORD ''Passwords did not match''), start [])"
proof (intro conjI)
  show a: "accepts demo_is_email False validator_updateUser (body plain_update_request)"
    by (simp add: accepts_def validate_body_def validator_updateUser_def plain_update_request_def
          field_def chain_def joi_string_def joi_min_def joi_max_def joi_email_def
          joi_required_def joi_label_def demo_is_email_def)
  from update_password_fields_undeclared
         [where request = plain_update_request and is_email = demo_is_email
            and usersService = "demo_service False True" and s = "start []"
            and m = "''Passwords did not match''"] a
  show "fst (updateUser (demo_service False True) plain_update_request (start [])) \<noteq>
       Forwarded (ErrorResponse INVALID_PASSWORD ''Passwords did not match'')"
    by blast
  have b: "(field (body half_update_request) ''password'' = JUndefined)
        \<noteq> (field (body half_update_request) ''confirmpassword'' = JUndefined)"
    by (simp add: half_update_request_def field_def)
  from update_password_fields_undeclared
         [where request = half_update_request
            and usersService = "demo_service False True" and s = "start []"] b
  show "updateUser (demo_service False True) half_update_request (start []) =
       (Forwarded (ErrorResponse INVALID_PASSWORD ''Passwords did not match''), start [])"
    by blast
qed

section \<open>What the schemas enforce\<close>

lemma name_rule:
  "validate_value is_email (chain joi_string [joi_min 1, joi_max 100, joi_required, joi_label l]) v = []
   \<longleftrightarrow> spec_name v"
  by (cases v)
     (auto simp: chain_def joi_string_def joi_min_def joi_max_def joi_required_def joi_label_def
        spec_name_def Suc_le_eq)

lemma email_rule:
  "validate_value is_email (chain joi_string [joi_email, joi_required, joi_label l]) v = []
   \<longleftrightarrow> spec_email is_email v"
  by (cases v)
     (auto simp: chain_def joi_string_def joi_email_def joi_required_def joi_label_def
        spec_email_def)

lemma password_rule:
  "validate_value is_email (chain joi_string [joi_min 6, joi_max 32, joi_required, joi_label l]) v = []
   \<longleftrightarrow> spec_password v"
  by (cases v)
     (auto simp: chain_def joi_string_def joi_min_def joi_max_def joi_required_def joi_label_def
        spec_password_def)

lemma no_unknown_keys:
  "filter (\<lambda>k. k \<notin> set ks) (map fst obj) = [] \<longleftrightarrow> set (map fst obj) \<subseteq> set ks"
  by (auto simp: filter_empty_conv)

lemma accepts_createUser:
  "accepts is_email allow_unknown validator_createUser obj \<longleftrightarrow>
     spec_name (field obj ''name'') \<and> spec_email is_email (field obj ''email'')
     \<and> spec_password (field obj ''password'') \<and> spec_password (field obj ''confirmpassword'')
     \<and> (allow_unknown
        \<or> set (map fst obj) \<subseteq> set [''name'', ''email'', ''password'', ''confirmpassword''])"
proof -
  have "accepts is_email allow_unknown validator_createUser obj \<longleftrightarrow>
     validate_value is_email (chain joi_string [joi_min 1, joi_max 100, joi_required, joi_label ''Name''])
        (field obj ''name'') = []
     \<and> validate_value is_email (chain joi_string [joi_email, joi_required, joi_label ''Email''])
        (field obj ''email'') = []
     \<and> validate_value is_email (chain joi_string [joi_min 6, joi_max 32, joi_required, joi_label ''Password''])
        (field obj ''password'') = []
     \<and> validate_value is_email
          (chain joi_string [joi_min 6, joi_max 32, joi_required, joi_label ''Confirm Password''])
        (field obj ''confirmpassword'') = []
     \<and> (allow_unknown
        \<or> filter (\<lambda>k. k \<notin> set [''name'', ''email'', ''password'', ''confirmpassword''])
             (map fst obj) = [])"
    by (simp add: accepts_def validate_body_def validator_createUser_def)
  then show ?thesis
    unfolding name_rule email_rule password_rule no_unknown_keys .
qed

lemma accepts_updateUser:
  "accepts is_email allow_unknown validator_updateUser obj \<longleftrightarrow>
     spec_name (field obj ''name'') \<and> spec_email is_email (field obj ''email'')
     \<and> (allow_unknown \<or> set (map fst obj) \<subseteq> set [''name'', ''email''])"
proof -
  have "accepts is_email allow_unknown validator_updateUser obj \<longleftrightarrow>
     validate_value is_email (chain joi_string [joi_min 1, joi_max 100, joi_required, joi_label ''Name''])
        (field obj ''name'') = []
     \<and> validate_value is_email (chain joi_string [joi_email, joi_required, joi_label ''Email''])
        (field obj ''email'') = []
     \<and> (allow_unknown \<or> filter (\<lambda>k. k \<notin> set [''name'', ''email'']) (map fst obj) = [])"
    by (simp add: accepts_def validate_body_def validator_updateUser_def)
  then show ?thesis
    unfolding name_rule email_rule no_unknown_keys .
qed

lemma accepts_patchUser:
  "accepts is_email allow_unknown validator_patchUser obj \<longleftrightarrow>
     spec_password (field obj ''oldpassword'') \<and> spec_password (field obj ''newpassword'')
     \<and> spec_password (field obj ''confirmnewpassword'')
     \<and> (allow_unknown
        \<or> set (map fst obj) \<subseteq> set [''oldpassword'', ''newpassword'', ''confirmnewpassword''])"
proof -
  have "accepts is_email allow_unknown validator_patchUser obj \<longleftrightarrow>
     validate_value is_email
          (chain joi_string [joi_min 6, joi_max 32, joi_required, joi_label ''Old Password''])
        (field obj ''oldpassword'') = []
     \<and> validate_value is_email
          (chain joi_string [joi_min 6, joi_max 32, joi_required, joi_label ''New Password''])
        (field obj ''newpassword'') = []
     \<and> validate_value is_email
          (chain joi_string [joi_min 6, joi_max 32, joi_required, joi_label ''Confirm New Password''])
        (field obj ''confirmnewpassword'') = []
     \<and> (allow_unknown
        \<or> filter (\<lambda>k. k \<notin> set [''oldpassword'', ''newpassword'', ''confirmnewpassword''])
             (map fst obj) = [])"
    by (simp add: accepts_def validate_body_def validator_patchUser_def)
  then show ?thesis
    unfolding password_rule no_unknown_keys .
qed

lemma schema_keys:
  "declared_keys validator_createUser = [''name'', ''email'', ''password'', ''confirmpassword'']"
  "required_keys validator_createUser = [''name'', ''email'', ''password'', ''confirmpassword'']"
  "declared_keys validator_updateUser = [''name'', ''email'']"
  "required_keys validator_updateUser = [''name'', ''email'']"
  "declared_keys validator_patchUser = [''oldpassword'', ''newpassword'', ''confirmnewpassword'']"
  "required_keys validator_patchUser = [''oldpassword'', ''newpassword'', ''confirmnewpassword'']"
  by (simp_all add: declared_keys_def required_keys_def validator_createUser_def
        validator_updateUser_def validator_patchUser_def chain_def joi_string_def joi_min_def
        joi_max_def joi_email_def joi_required_def joi_label_def)

text \<open>
  C7. A body is accepted by the schema of createUser exactly when its name is a string
  of length 1 to 100, its email a string in email format, and its password and
  confirmpassword strings of length 6 to 32 (and, where keys that are not declared are
  refused, it has no other key); by the schema of updateUser exactly when its name and
  email are so, no password field being declared; by the schema of patchUser exactly
  when its oldpassword, newpassword and confirmnewpassword are strings of length 6 to
  32. Every declared key is required. So a name longer than 100 characters is refused,
  an email without an at sign is refused whenever the email format asks for one, and a
  password field shorter than 6 or longer than 32 characters is refused; no service and
  no comparison of fields enters the validation.
\<close>

theorem schemas_enforce_field_rules:
  "(accepts is_email allow_unknown validator_createUser obj \<longleftrightarrow>
      spec_name (field obj ''name'') \<and> spec_email is_email (field obj ''email'')
      \<and> spec_password (field obj ''password'') \<and> spec_password (field obj ''confirmpassword'')
      \<and> (allow_unknown
         \<or> set (map fst obj) \<subseteq> set [''name'', ''email'', ''password'', ''confirmpassword'']))
   \<and> (accepts is_email allow_unknown validator_updateUser obj \<longleftrightarrow>
      spec_name (field obj ''name'') \<and> spec_email is_email (field obj ''email'')
      \<and> (allow_unknown \<or> set (map fst obj) \<subseteq> set [''name'', ''email'']))
   \<and> (accepts is_email allow_unknown validator_patchUser obj \<longleftrightarrow>
      spec_password (field obj ''oldpassword'') \<and> spec_password (field obj ''newpassword'')
      \<and> spec_password (field obj ''confirmnewpassword'')
      \<and> (allow_unknown
         \<or> set (map fst obj) \<subseteq> set [''oldpassword'', ''newpassword'', ''confirmnewpassword'']))
   \<and> declared_keys validator_createUser = [''name'', ''email'', ''password'', ''confirmpassword'']
   \<and> required_keys validator_createUser = [''name'', ''email'', ''password'', ''confirmpassword'']
   \<and> declared_keys validator_updateUser = [''name'', ''email'']
   \<and> required_keys validator_updateUser = [''name'', ''email'']
   \<and> declared_keys validator_patchUser = [''oldpassword'', ''newpassword'', ''confirmnewpassword'']
   \<and> required_keys validator_patchUser = [''oldpassword'', ''newpassword'', ''confirmnewpassword'']
   \<and> (field obj ''name'' = JStr x \<and> 100 < length x
      \<longrightarrow> \<not> accepts is_email allow_unknown validator_createUser obj
          \<and> \<not> accepts is_email allow_unknown validator_updateUser obj)
   \<and> ((\<forall>y. is_email y \<longrightarrow> CHR ''@'' \<in> set y) \<and> field obj ''email'' = JStr x \<and> CHR ''@'' \<notin> set x
      \<longrightarrow> \<not> accepts is_email allow_unknown validator_createUser obj
          \<and> \<not> accepts is_email allow_unknown validator_updateUser obj)
   \<and> ((k = ''password'' \<or> k = ''confirmpassword'') \<and> field obj k = JStr x
        \<and> (length x < 6 \<or> 32 < length x)
      \<longrightarrow> \<not> accepts is_email allow_unknown validator_createUser obj)
   \<and> ((k = ''oldpassword'' \<or> k = ''newpassword'' \<or> k = ''confirmnewpassword'')
        \<and> field obj k = JStr x \<and> (length x < 6 \<or> 32 < length x)
      \<longrightarrow> \<not> accepts is_email allow_unknown validator_patchUser obj)"
proof (intro conjI)
  show "field obj ''name'' = JStr x \<and> 100 < length x
      \<longrightarrow> \<not> accepts is_email allow_unknown validator_createUser obj
          \<and> \<not> accepts is_email allow_unknown validator_updateUser obj"
    by (simp add: accepts_createUser accepts_updateUser spec_name_def)
  show "(\<forall>y. is_email y \<longrightarrow> CHR ''@'' \<in> set y) \<and> field obj ''email'' = JStr x \<and> CHR ''@'' \<notin> set x
      \<longrightarrow> \<not> accepts is_email allow_unknown validator_createUser obj
          \<and> \<not> accepts is_email allow_unknown validator_updateUser obj"
    by (auto simp: accepts_createUser accepts_updateUser spec_email_def)
  show "(k = ''password'' \<or> k = ''confirmpassword'') \<and> field obj k = JStr x
        \<and> (length x < 6 \<or> 32 < length x)
      \<longrightarrow> \<not> accepts is_email allow_unknown validator_createUser obj"
    by (auto simp: accepts_createUser spec_password_def)
  show "(k = ''oldpassword'' \<or> k = ''newpassword'' \<or> k = ''confirmnewpassword'')
        \<and> field obj k = JStr x \<and> (length x < 6 \<or> 32 < length x)
      \<longrightarrow> \<not> accepts is_email allow_unknown validator_patchUser obj"
    by (auto simp: accepts_patchUser spec_password_def)
qed (simp_all only: accepts_createUser accepts_updateUser accepts_patchUser schema_keys)

theorem schemas_enforce_field_rules_witness:
  "accepts demo_is_email False validator_createUser (body alice_request)
   \<and> \<not> accepts demo_is_email False validator_createUser no_at_body
   \<and> \<not> accepts demo_is_email False validator_patchUser short_password_body"
proof (intro conjI)
  have ok: "spec_name (field (body alice_request) ''name'')
     \<and> spec_email demo_is_email (field (body alice_request) ''email'')
     \<and> spec_password (field (body alice_request) ''password'')
     \<and> spec_password (field (body alice_request) ''confirmpassword'')
     \<and> (False \<or> set (map fst (body alice_request))
                   \<subseteq> set [''name'', ''email'', ''password'', ''confirmpassword''])"
    by (simp add: alice_request_def field_def spec_name_def spec_email_def spec_password_def
          demo_is_email_def)
  show "accepts demo_is_email False validator_createUser (body alice_request)"
    by (rule schemas_enforce_field_rules
               [where is_email = demo_is_email and allow_unknown = False
                  and obj = "body alice_request", THEN conjunct1, THEN iffD2])
       (rule ok)
  have no_at: "(\<forall>y. demo_is_email y \<longrightarrow> CHR ''@'' \<in> set y)
     \<and> field no_at_body ''email'' = JStr ''ax.com'' \<and> CHR ''@'' \<notin> set ''ax.com''"
    by (simp add: demo_is_email_def no_at_body_def field_def)
  show "\<not> accepts demo_is_email False validator_createUser no_at_body"
    by (rule schemas_enforce_field_rules
               [where is_email = demo_is_email and allow_unknown = False and obj = no_at_body
                  and x = "''ax.com''", THEN conjunct2, THEN conjunct2, THEN conjunct2, THEN conjunct2, THEN conjunct2, THEN conjunct2, THEN conjunct2, THEN conjunct2, THEN conjunct2, THEN conjunct2, THEN conjunct1, THEN mp, THEN conjunct1])
       (rule no_at)
  have short: "(''newpassword'' = ''oldpassword'' \<or> ''newpassword'' = ''newpassword''
        \<or> ''newpassword'' = ''confirmnewpassword'')
     \<and> field short_password_body ''newpassword'' = JStr ''abc''
     \<and> (length ''abc'' < 6 \<or> 32 < length ''abc'')"
    by (simp add: short_password_body_def field_def)
  show "\<not> accepts demo_is_email False validator_patchUser short_password_body"
    by (rule schemas_enforce_field_rules
               [where is_email = demo_is_email and allow_unknown = False
                  and obj = short_password_body and x = "''abc''" and k = "''newpassword''",
                THEN conjunct2, THEN conjunct2, THEN conjunct2, THEN conjunct2, THEN conjunct2, THEN conjunct2, THEN conjunct2, THEN conjunct2, THEN conjunct2, THEN conjunct2, THEN conjunct2, THEN conjunct2, THEN mp])
       (rule short)
qed

end
